theory Spec2Isabelle
  imports Main "HOL-Library.AList" "HOL-Library.Code_Target_Nat"
begin

section \<open>Go values used by the audit store\<close>

text \<open>
  The Go type \<open>error\<close> is modelled by its message; \<open>None\<close> is \<open>nil\<close>.
  A call either returns, panics (a failed type assertion, an index out of range, a
  method call on a nil client) or ends the process (\<open>log.Fatal\<close>).
\<close>

type_synonym error = "string option"

datatype 'a result = Return 'a | Panic | Fatal

text \<open>Indexing a slice: out of range is a run-time panic.\<close>

definition index :: "'a list \<Rightarrow> nat \<Rightarrow> 'a result" where
  "index xs i = (if i < length xs then Return (xs ! i) else Panic)"

definition andThen :: "'a result \<Rightarrow> ('a \<Rightarrow> 'b result) \<Rightarrow> 'b result" where
  "andThen r f = (case r of Return x \<Rightarrow> f x | Panic \<Rightarrow> Panic | Fatal \<Rightarrow> Fatal)"

subsection \<open>strconv\<close>

definition digit_char :: "nat \<Rightarrow> char" where
  "digit_char d = ''0123456789'' ! d"

fun digits10 :: "nat \<Rightarrow> string" where
  "digits10 n = (if n < 10 then [digit_char n] else digits10 (n div 10) @ [digit_char (n mod 10)])"

declare digits10.simps [simp del]

text \<open>\<open>strconv.FormatInt(i, 10)\<close> and \<open>strconv.Itoa\<close>: the decimal form, with a leading minus sign.\<close>

definition FormatInt :: "int \<Rightarrow> string" where
  "FormatInt i = (if i < 0 then CHR ''-'' # digits10 (nat (- i)) else digits10 (nat i))"

text \<open>
  \<open>strconv.ParseInt(s, 10, 64)\<close>: an optional sign and at least one decimal digit; a
  value outside \<open>int64\<close> is answered with the nearest bound and a range error.
\<close>

definition digit_val :: "char \<Rightarrow> nat option" where
  "digit_val c = (if c \<in> set ''0123456789'' then Some (of_char c - 48) else None)"

fun parse_digits :: "nat \<Rightarrow> string \<Rightarrow> nat option" where
  "parse_digits n [] = Some n"
| "parse_digits n (c # cs) =
     (case digit_val c of None \<Rightarrow> None | Some d \<Rightarrow> parse_digits (n * 10 + d) cs)"

definition ParseInt :: "string \<Rightarrow> int \<times> error" where
  "ParseInt s =
     (case s of
        [] \<Rightarrow> (0, Some ''strconv.ParseInt: invalid syntax'')
      | c # cs \<Rightarrow>
          let neg = (c = CHR ''-'');
              ds = (if c = CHR ''+'' \<or> c = CHR ''-'' then cs else s)
          in if ds = [] then (0, Some ''strconv.ParseInt: invalid syntax'')
             else (case parse_digits 0 ds of
                     None \<Rightarrow> (0, Some ''strconv.ParseInt: invalid syntax'')
                   | Some n \<Rightarrow>
                       if \<not> neg \<and> 2 ^ 63 \<le> n then (2 ^ 63 - 1, Some ''strconv.ParseInt: value out of range'')
                       else if neg \<and> 2 ^ 63 < n then (- (2 ^ 63), Some ''strconv.ParseInt: value out of range'')
                       else (if neg then - int n else int n, None)))"

subsection \<open>time\<close>

text \<open>
  A \<open>time.Time\<close> is the instant it denotes, in nanoseconds since the Unix epoch. The
  zero value \<open>time.Time{}\<close> is 1 January of year 1, which lies 62135596800 seconds before
  the epoch. \<open>UnixNano\<close> returns an \<open>int64\<close>: outside the years 1678 to 2262 the
  product wraps around.
\<close>

type_synonym time = int

definition zeroTime :: time where
  "zeroTime = - 62135596800 * 1000000000"

definition Before :: "time \<Rightarrow> time \<Rightarrow> bool" where
  "Before t u = (t < u)"

definition wrap64 :: "int \<Rightarrow> int" where
  "wrap64 x = (x + 2 ^ 63) mod 2 ^ 64 - 2 ^ 63"

definition UnixNano :: "time \<Rightarrow> int" where
  "UnixNano t = wrap64 t"

subsection \<open>merkletree\<close>

text \<open>
  Of the external \<open>merkletree\<close> package the store reads a tree's leaves and, of a
  \<open>StorageBucket\<close>, its \<open>ID\<close> and \<open>Timestamp\<close>; the bucket's other fields are kept as
  one opaque payload. \<open>Content\<close> is an interface: a leaf holds a storage bucket or
  something else, and the type assertion \<open>.(merkletree.StorageBucket)\<close> panics on the
  latter.
\<close>

record StorageBucket =
  ID :: string
  Timestamp :: time
  Payload :: string

datatype Content = Bucket StorageBucket | OtherContent string

record Node =
  C :: Content

record MerkleTree =
  Leafs :: "Node list"
  merkleRoot :: string

definition emptyTree :: MerkleTree where
  "emptyTree = \<lparr>Leafs = [], merkleRoot = []\<rparr>"

fun isBucket :: "Content \<Rightarrow> bool" where
  "isBucket (Bucket b) = True"
| "isBucket (OtherContent s) = False"

subsection \<open>The InfluxDB client\<close>

text \<open>
  A point of the time-series store: measurement, tags, fields and the time key in
  nanoseconds. All fields written by the audit store are strings.
\<close>

record point =
  pname :: string
  ptags :: "(string \<times> string) list"
  pfields :: "(string \<times> string) list"
  ptime :: int

record BatchPoints =
  Points :: "point list"
  Database :: string
  Precision :: string

text \<open>
  \<open>NewBatchPoints\<close> of the client library rejects a precision that is not a unit of
  \<open>time.ParseDuration\<close>; an empty precision stands for nanoseconds.
\<close>

definition NewBatchPoints :: "string \<Rightarrow> string \<Rightarrow> BatchPoints option \<times> error" where
  "NewBatchPoints database precision =
     (let precision' = (if precision = [] then ''ns'' else precision)
      in if precision' \<in> set [''ns'', ''us'', ''ms'', ''s'', ''m'', ''h'']
         then (Some \<lparr>Points = [], Database = database, Precision = precision'\<rparr>, None)
         else (None, Some (''time: unknown unit in duration 1'' @ precision')))"

text \<open>
  The server behind the client: the rows it holds, the outcome of each of the coming
  write requests in turn (\<open>Some e\<close>: the request fails with \<open>e\<close>; past the end of the
  list a request succeeds), and the outcome of the next query. A point written again
  with the same measurement, tag set and time replaces the row.
\<close>

record influx =
  writeOutcomes :: "error list"
  queryOutcome :: error
  rows :: "point list"

definition sameSeries :: "point \<Rightarrow> point \<Rightarrow> bool" where
  "sameSeries p q = (pname p = pname q \<and> ptime p = ptime q \<and> set (ptags p) = set (ptags q))"

definition upsert :: "point \<Rightarrow> point list \<Rightarrow> point list" where
  "upsert p rs = filter (\<lambda>r. \<not> sameSeries r p) rs @ [p]"

definition influx_Write :: "influx \<Rightarrow> BatchPoints \<Rightarrow> influx \<times> error" where
  "influx_Write cl bp =
     (case writeOutcomes cl of
        Some e # later \<Rightarrow> (cl\<lparr>writeOutcomes := later\<rparr>, Some e)
      | None # later \<Rightarrow> (cl\<lparr>writeOutcomes := later, rows := fold upsert (Points bp) (rows cl)\<rparr>, None)
      | [] \<Rightarrow> (cl\<lparr>rows := fold upsert (Points bp) (rows cl)\<rparr>, None))"

text \<open>
  Queries. Each command stands for one query text of the audit store, given beside it;
  tag values are compared as they were written. A response holds one result per
  statement; a result that matches nothing has no series.
\<close>

datatype command =
    StorageEarliestAfter string int
  | StorageByTime string string
  | StorageLatest string
  | MerkleEarliestAfter string string int
  | MerkleByID string string string
  | MerkleLastTimestamp string string
  | MerkleLastID string string

fun commandText :: "command \<Rightarrow> string" where
  "commandText (StorageEarliestAfter topic lower) =
     ''SELECT time, value FROM (SELECT * FROM storage WHERE topic='' @ [CHR 0x27] @ topic @ [CHR 0x27]
       @ '' and time > '' @ FormatInt lower @ '') ORDER BY ASC LIMIT 1''"
| "commandText (StorageByTime topic key) =
     ''SELECT value FROM storage WHERE topic='' @ [CHR 0x27] @ topic @ [CHR 0x27] @ '' and time='' @ key"
| "commandText (StorageLatest topic) =
     ''SELECT * FROM storage WHERE topic='' @ [CHR 0x27] @ topic @ [CHR 0x27] @ '' ORDER BY DESC LIMIT 1''"
| "commandText (MerkleEarliestAfter topic level lower) =
     ''SELECT time,'' @ [CHR 0x22] @ ''id'' @ [CHR 0x22] @ '',value FROM (SELECT * FROM merkle WHERE topic=''
       @ [CHR 0x27] @ topic @ [CHR 0x27] @ '' and level='' @ [CHR 0x27] @ level @ [CHR 0x27]
       @ '' and time > '' @ FormatInt lower @ '') ORDER BY ASC LIMIT 1''"
| "commandText (MerkleByID topic level key) =
     ''SELECT * FROM merkle WHERE topic='' @ [CHR 0x27] @ topic @ [CHR 0x27]
       @ '' and level='' @ [CHR 0x27] @ level @ [CHR 0x27] @ '' and id='' @ [CHR 0x27] @ key @ [CHR 0x27]"
| "commandText (MerkleLastTimestamp topic level) =
     ''SELECT lastTimestamp FROM (SELECT * FROM merkle GROUP BY id) WHERE topic='' @ [CHR 0x27] @ topic
       @ [CHR 0x27] @ '' AND level='' @ [CHR 0x27] @ level @ [CHR 0x27] @ '' ORDER BY DESC LIMIT 1''"
| "commandText (MerkleLastID topic level) =
     ''SELECT id FROM (SELECT * FROM merkle WHERE topic='' @ [CHR 0x27] @ topic @ [CHR 0x27]
       @ '' AND level='' @ [CHR 0x27] @ level @ [CHR 0x27] @ '' GROUP BY id) ORDER BY DESC LIMIT 1''"

record Query =
  Command :: command
  Database :: string

datatype cell = VString string | VNull

record Row =
  Values :: "cell list list"

record Result =
  Series :: "Row list"
  Err :: string

record Response =
  Results :: "Result list"
  ResponseErr :: string

text \<open>\<open>Response.Error\<close>: the error of the response, or the first error of a result.\<close>

definition Response_Error :: "Response \<Rightarrow> error" where
  "Response_Error r =
     (if ResponseErr r \<noteq> [] then Some (ResponseErr r)
      else (case filter (\<lambda>res. Err res \<noteq> []) (Results r) of
              [] \<Rightarrow> None
            | res # _ \<Rightarrow> Some (Err res)))"

text \<open>
  Calendar arithmetic for the time column, which the server sends in the layout
  \<open>RFC3339Nano\<close> in UTC: days since the epoch to year, month and day and back
  (proleptic Gregorian calendar).
\<close>

definition civil_from_days :: "int \<Rightarrow> int \<times> int \<times> int" where
  "civil_from_days z0 =
     (let z = z0 + 719468;
          era = z div 146097;
          doe = z mod 146097;
          yoe = (doe - doe div 1460 + doe div 36524 - doe div 146096) div 365;
          doy = doe - (365 * yoe + yoe div 4 - yoe div 100);
          mp = (5 * doy + 2) div 153;
          d = doy - (153 * mp + 2) div 5 + 1;
          m = (if mp < 10 then mp + 3 else mp - 9);
          y = yoe + era * 400
      in (if m \<le> 2 then y + 1 else y, m, d))"

definition days_from_civil :: "int \<Rightarrow> int \<Rightarrow> int \<Rightarrow> int" where
  "days_from_civil y0 m d =
     (let y = (if m \<le> 2 then y0 - 1 else y0);
          era = y div 400;
          yoe = y mod 400;
          doy = (153 * (if m > 2 then m - 3 else m + 9) + 2) div 5 + d - 1;
          doe = yoe * 365 + yoe div 4 - yoe div 100 + doy
      in era * 146097 + doe - 719468)"

fun pad :: "nat \<Rightarrow> string \<Rightarrow> string" where
  "pad w s = replicate (w - length s) CHR ''0'' @ s"

definition fraction :: "int \<Rightarrow> string" where
  "fraction ns =
     (if ns = 0 then []
      else CHR ''.'' # rev (dropWhile (\<lambda>c. c = CHR ''0'') (rev (pad 9 (FormatInt ns)))))"

definition dateText :: "int \<Rightarrow> string" where
  "dateText days = (case civil_from_days days of (y, m, d) \<Rightarrow>
     pad 4 (FormatInt y) @ ''-'' @ pad 2 (FormatInt m) @ ''-'' @ pad 2 (FormatInt d))"

definition clockText :: "int \<Rightarrow> string" where
  "clockText sod =
     pad 2 (FormatInt (sod div 3600)) @ '':'' @ pad 2 (FormatInt (sod mod 3600 div 60)) @ '':''
       @ pad 2 (FormatInt (sod mod 60))"

definition formatRFC3339Nano :: "int \<Rightarrow> string" where
  "formatRFC3339Nano t =
     (let secs = t div 1000000000; ns = t mod 1000000000
      in dateText (secs div 86400) @ ''T'' @ clockText (secs mod 86400) @ fraction ns @ ''Z'')"

text \<open>The rows a query selects, and the one with the least or the greatest time among them.\<close>

definition matching :: "string \<Rightarrow> (string \<times> string) list \<Rightarrow> point list \<Rightarrow> point list" where
  "matching table tagFilter rs =
     filter (\<lambda>r. pname r = table \<and> list_all (\<lambda>(k, v). map_of (ptags r) k = Some v) tagFilter) rs"

fun earliest :: "point list \<Rightarrow> point option" where
  "earliest [] = None"
| "earliest (r # rs) =
     (case earliest rs of
        None \<Rightarrow> Some r
      | Some m \<Rightarrow> if ptime m < ptime r then Some m else Some r)"

fun latest :: "point list \<Rightarrow> point option" where
  "latest [] = None"
| "latest (r # rs) =
     (case latest rs of
        None \<Rightarrow> Some r
      | Some m \<Rightarrow> if ptime r < ptime m then Some m else Some r)"

definition timeCell :: "point \<Rightarrow> cell" where
  "timeCell r = VString (formatRFC3339Nano (ptime r))"

definition tagCell :: "point \<Rightarrow> string \<Rightarrow> cell" where
  "tagCell r k = (case map_of (ptags r) k of Some v \<Rightarrow> VString v | None \<Rightarrow> VNull)"

definition fieldCell :: "point \<Rightarrow> string \<Rightarrow> cell" where
  "fieldCell r k = (case map_of (pfields r) k of Some v \<Rightarrow> VString v | None \<Rightarrow> VNull)"

text \<open>\<open>SELECT *\<close> gives the time and then the fields and tags in the order of their keys.\<close>

definition storageStar :: "point \<Rightarrow> cell list" where
  "storageStar r =
     [timeCell r, tagCell r ''firstDate'', tagCell r ''lastDate'', tagCell r ''topic'', fieldCell r ''value'']"

definition merkleStar :: "point \<Rightarrow> cell list" where
  "merkleStar r =
     [timeCell r, fieldCell r ''children'', tagCell r ''id'', fieldCell r ''lastTimestamp'',
      tagCell r ''level'', tagCell r ''topic'', fieldCell r ''value'']"

definition answer :: "cell list list \<Rightarrow> Response" where
  "answer vals =
     \<lparr>Results = [\<lparr>Series = (if vals = [] then [] else [\<lparr>Values = vals\<rparr>]), Err = []\<rparr>],
      ResponseErr = []\<rparr>"

definition oneRow :: "point option \<Rightarrow> (point \<Rightarrow> cell list) \<Rightarrow> Response" where
  "oneRow r cols = answer (case r of None \<Rightarrow> [] | Some p \<Rightarrow> [cols p])"

text \<open>
  The time of \<open>StorageByTime\<close> is the text the caller passed: the server reads a decimal
  integer as nanoseconds and refuses a text that is no time expression (decimal
  integers are the only time expressions modelled).
\<close>

fun evalCommand :: "command \<Rightarrow> point list \<Rightarrow> Response" where
  "evalCommand (StorageEarliestAfter topic lower) rs =
     oneRow (earliest (filter (\<lambda>r. lower < ptime r) (matching ''storage'' [(''topic'', topic)] rs)))
       (\<lambda>r. [timeCell r, fieldCell r ''value''])"
| "evalCommand (StorageByTime topic key) rs =
     (case ParseInt key of
        (n, Some e) \<Rightarrow> \<lparr>Results = [], ResponseErr = ''error parsing query''\<rparr>
      | (n, None) \<Rightarrow>
          answer (map (\<lambda>r. [timeCell r, fieldCell r ''value''])
            (filter (\<lambda>r. ptime r = n) (matching ''storage'' [(''topic'', topic)] rs))))"
| "evalCommand (StorageLatest topic) rs =
     oneRow (latest (matching ''storage'' [(''topic'', topic)] rs)) storageStar"
| "evalCommand (MerkleEarliestAfter topic level lower) rs =
     oneRow (earliest (filter (\<lambda>r. lower < ptime r)
         (matching ''merkle'' [(''topic'', topic), (''level'', level)] rs)))
       (\<lambda>r. [timeCell r, tagCell r ''id'', fieldCell r ''value''])"
| "evalCommand (MerkleByID topic level key) rs =
     answer (map merkleStar
       (sort_key ptime (matching ''merkle'' [(''topic'', topic), (''level'', level), (''id'', key)] rs)))"
| "evalCommand (MerkleLastTimestamp topic level) rs =
     oneRow (latest (matching ''merkle'' [(''topic'', topic), (''level'', level)] rs))
       (\<lambda>r. [timeCell r, fieldCell r ''lastTimestamp''])"
| "evalCommand (MerkleLastID topic level) rs =
     oneRow (latest (matching ''merkle'' [(''topic'', topic), (''level'', level)] rs))
       (\<lambda>r. [timeCell r, tagCell r ''id''])"

text \<open>The type assertion \<open>.(string)\<close> on a value of a row.\<close>

definition asString :: "cell \<Rightarrow> string result" where
  "asString v = (case v of VString s \<Rightarrow> Return s | VNull \<Rightarrow> Panic)"

definition influx_Query :: "influx \<Rightarrow> Query \<Rightarrow> Response \<times> error" where
  "influx_Query cl q =
     (case queryOutcome cl of
        Some e \<Rightarrow> (\<lparr>Results = [], ResponseErr = []\<rparr>, Some e)
      | None \<Rightarrow> (evalCommand (Command q) (rows cl), None))"

subsection \<open>The Redis client\<close>

text \<open>
  The server holds hashes: under a key, a map from fields to values. \<open>redisOutcomes\<close>
  gives the outcome of each coming request as for the time-series store.
\<close>

record redis =
  redisOutcomes :: "error list"
  hashes :: "string \<Rightarrow> string \<rightharpoonup> string"

definition redis_Nil :: string where
  "redis_Nil = ''redis: nil''"

text \<open>
  \<open>HSET\<close> with the fields of a Go map, an integer written in decimal; the server
  refuses the command without a field. \<open>HGET\<close> of a missing field answers \<open>redis.Nil\<close>.
\<close>

definition redis_HSet :: "redis \<Rightarrow> string \<Rightarrow> (string \<times> int) list \<Rightarrow> redis \<times> error" where
  "redis_HSet r key poolMap =
     (case redisOutcomes r of
        Some e # later \<Rightarrow> (r\<lparr>redisOutcomes := later\<rparr>, Some e)
      | _ \<Rightarrow>
          if poolMap = []
          then (r\<lparr>redisOutcomes := tl (redisOutcomes r)\<rparr>,
                Some ''ERR wrong number of arguments for hset command'')
          else (r\<lparr>redisOutcomes := tl (redisOutcomes r),
                   hashes := (hashes r)(key := hashes r key ++
                     map_of (map (\<lambda>(f, v). (f, FormatInt v)) poolMap))\<rparr>, None))"

definition redis_HGet :: "redis \<Rightarrow> string \<Rightarrow> string \<Rightarrow> string \<times> error" where
  "redis_HGet r key field =
     (case redisOutcomes r of
        Some e # later \<Rightarrow> ([], Some e)
      | _ \<Rightarrow>
          (case hashes r key field of
             None \<Rightarrow> ([], Some redis_Nil)
           | Some v \<Rightarrow> (v, None)))"

subsection \<open>External functions\<close>

text \<open>
  What the audit store calls but this package does not define: the tree constructor,
  the membership check and the JSON codec of trees, the point validation of the client
  library, the calendar functions of \<open>time\<close>, and the constant
  \<open>influxMaxPointsInBatch\<close>, declared in another file of the package. They are
  parameters of the model.
\<close>

record env =
  influxMaxPointsInBatch :: int
  NewTree :: "Content list \<Rightarrow> MerkleTree \<times> error"
  DataInStorageTree :: "string \<Rightarrow> MerkleTree \<Rightarrow> bool \<times> error"
  json_Marshal :: "MerkleTree \<Rightarrow> string \<times> error"
  json_Unmarshal :: "string \<Rightarrow> MerkleTree \<Rightarrow> MerkleTree \<times> error"
  json_Marshal_strings :: "string list \<Rightarrow> string \<times> error"
  NewPoint_error :: "string \<Rightarrow> (string \<times> string) list \<Rightarrow> (string \<times> string) list \<Rightarrow> time \<Rightarrow> error"
  time_Parse :: "string \<Rightarrow> time \<times> error"
  Time_String :: "time \<Rightarrow> string"
  Time_AddDate :: "time \<Rightarrow> int \<Rightarrow> int \<Rightarrow> int \<Rightarrow> time"

definition NewPoint :: "env \<Rightarrow> string \<Rightarrow> (string \<times> string) list \<Rightarrow> (string \<times> string) list
    \<Rightarrow> time \<Rightarrow> point option \<times> error" where
  "NewPoint E name tags fieldMap t =
     (case NewPoint_error E name tags fieldMap t of
        Some e \<Rightarrow> (None, Some e)
      | None \<Rightarrow> (Some \<lparr>pname = name, ptags = tags, pfields = fieldMap, ptime = UnixNano t\<rparr>, None))"

section \<open>The audit store\<close>

definition auditDBName :: string where
  "auditDBName = ''audit''"

definition influxDBStorageTable :: string where
  "influxDBStorageTable = ''storage''"

definition influxDBMerkleTable :: string where
  "influxDBMerkleTable = ''merkle''"

text \<open>
  \<open>DBAudit\<close>. A client that was not set up (\<open>NewAuditStoreWithOptions\<close> without Redis or
  without Influx) is nil, and so is then the batch. The counter is a Go \<open>int\<close>; it
  stays far from the bounds of the type and is modelled without them.
\<close>

record DBAudit =
  redisClient :: "redis option"
  influxClient :: "influx option"
  influxBatchPoints :: "BatchPoints option"
  influxPointsInBatch :: int

definition getKeyPoolIDs :: "string \<Rightarrow> string" where
  "getKeyPoolIDs topic = ''HashedPoolsMap_'' @ topic"

definition createAuditBatchInflux :: "BatchPoints option \<times> error" where
  "createAuditBatchInflux = NewBatchPoints auditDBName ''ns''"

subsection \<open>The batch\<close>

definition WriteAuditBatchInflux :: "DBAudit \<Rightarrow> (DBAudit \<times> error) result" where
  "WriteAuditBatchInflux db =
     (case (influxClient db, influxBatchPoints db) of
        (Some cl, Some bp) \<Rightarrow>
          (case influx_Write cl bp of
             (cl', Some e) \<Rightarrow>
               Return (db\<lparr>influxClient := Some cl', influxBatchPoints := fst createAuditBatchInflux\<rparr>, Some e)
           | (cl', None) \<Rightarrow>
               Return (db\<lparr>influxClient := Some cl', influxPointsInBatch := 0\<rparr>, None))
      | _ \<Rightarrow> Panic)"

definition FlushAuditBatch :: "DBAudit \<Rightarrow> (DBAudit \<times> error) result" where
  "FlushAuditBatch db =
     (if influxBatchPoints db \<noteq> None then WriteAuditBatchInflux db else Return (db, None))"

definition addAuditPoint :: "env \<Rightarrow> DBAudit \<Rightarrow> point \<Rightarrow> DBAudit result" where
  "addAuditPoint E db pt =
     (case influxBatchPoints db of
        None \<Rightarrow> Panic
      | Some bp \<Rightarrow>
          let db1 = db\<lparr>influxBatchPoints := Some (bp\<lparr>Points := Points bp @ [pt]\<rparr>),
                       influxPointsInBatch := influxPointsInBatch db + 1\<rparr>
          in if influxPointsInBatch db1 \<ge> influxMaxPointsInBatch E
             then (case WriteAuditBatchInflux db1 of
                     Return (db2, err) \<Rightarrow> Return db2
                   | Panic \<Rightarrow> Panic
                   | Fatal \<Rightarrow> Fatal)
             else Return db1)"

section \<open>Saving to the storage table\<close>

text \<open>
  The loop of \<open>SetStorageTreeInflux\<close> over \<open>tree.Leafs\<close>, with the index \<open>i\<close> and the
  three variables it updates: \<open>bucketsWithID\<close>, \<open>firstDate\<close> and \<open>lastDate\<close>.
  \<open>influxTimeID\<close> is the clock reading taken once before the loop.
\<close>

fun leafLoop :: "time \<Rightarrow> Node list \<Rightarrow> nat \<Rightarrow> Content list \<times> time \<times> time
    \<Rightarrow> (Content list \<times> time \<times> time) result" where
  "leafLoop influxTimeID [] i acc = Return acc"
| "leafLoop influxTimeID (leaf # rest) i (bucketsWithID, firstDate, lastDate) =
     (case C leaf of
        OtherContent s \<Rightarrow> Panic
      | Bucket b \<Rightarrow>
          let bucket = b\<lparr>ID := FormatInt (UnixNano influxTimeID) @ ''.'' @ FormatInt (int i)\<rparr>;
              lastDate' = (if Before lastDate (Timestamp bucket) then Timestamp bucket else lastDate);
              firstDate' = (if Before (Timestamp bucket) firstDate then Timestamp bucket else firstDate)
          in leafLoop influxTimeID rest (Suc i)
               (bucketsWithID @ [Bucket bucket], firstDate', lastDate'))"

text \<open>The timestamps of the buckets among the leaves, in order.\<close>

fun bucketTimes :: "Node list \<Rightarrow> time list" where
  "bucketTimes [] = []"
| "bucketTimes (leaf # rest) =
     (case C leaf of Bucket b \<Rightarrow> Timestamp b # bucketTimes rest | OtherContent s \<Rightarrow> bucketTimes rest)"

text \<open>
  \<open>SetStorageTreeInflux\<close>. The clock is read twice before the loop: \<open>influxTimeID\<close>
  names the tree, \<open>nowFirst\<close> is the initial value of \<open>firstDate\<close>.
\<close>

definition storageTags :: "string \<Rightarrow> time \<Rightarrow> time \<Rightarrow> (string \<times> string) list" where
  "storageTags topic firstDate lastDate =
     [(''topic'', topic),
      (''firstDate'', FormatInt (UnixNano firstDate)),
      (''lastDate'', FormatInt (UnixNano lastDate))]"

definition SetStorageTreeInflux :: "env \<Rightarrow> time \<Rightarrow> time \<Rightarrow> DBAudit \<Rightarrow> MerkleTree \<Rightarrow> string
    \<Rightarrow> (DBAudit \<times> error) result" where
  "SetStorageTreeInflux E influxTimeID nowFirst db tree topic =
     (case leafLoop influxTimeID (Leafs tree) 0 ([], nowFirst, zeroTime) of
        Panic \<Rightarrow> Panic
      | Fatal \<Rightarrow> Fatal
      | Return (bucketsWithID, firstDate, lastDate) \<Rightarrow>
          (case NewTree E bucketsWithID of
             (treeWithID, Some e) \<Rightarrow> Return (db, Some e)
           | (treeWithID, None) \<Rightarrow>
               let marshTree = fst (json_Marshal E treeWithID);
                   tags = storageTags topic firstDate lastDate;
                   fieldMap = [(''value'', marshTree)]
               in (case NewPoint E influxDBStorageTable tags fieldMap influxTimeID of
                     (Some pt, None) \<Rightarrow>
                       (case addAuditPoint E db pt of
                          Return db1 \<Rightarrow> WriteAuditBatchInflux db1
                        | Panic \<Rightarrow> Panic
                        | Fatal \<Rightarrow> Fatal)
                   | _ \<Rightarrow> WriteAuditBatchInflux db)))"

section \<open>Reading the storage table\<close>

definition queryAuditDB :: "influx \<Rightarrow> command \<Rightarrow> Result list \<times> error" where
  "queryAuditDB clnt cmd =
     (case influx_Query clnt \<lparr>Command = cmd, Database = auditDBName\<rparr> of
        (response, None) \<Rightarrow>
          (case Response_Error response of
             Some e \<Rightarrow> ([], Some e)
           | None \<Rightarrow> (Results response, None))
      | (response, Some err) \<Rightarrow> ([], Some err))"

definition GetStorageTreeInflux :: "env \<Rightarrow> DBAudit \<Rightarrow> string \<Rightarrow> time
    \<Rightarrow> (MerkleTree \<times> time \<times> error) result" where
  "GetStorageTreeInflux E db topic timeLower =
     (case influxClient db of
        None \<Rightarrow> Panic
      | Some cl \<Rightarrow>
          (case queryAuditDB cl (StorageEarliestAfter topic (UnixNano timeLower)) of
             (res, Some err) \<Rightarrow> Return (emptyTree, zeroTime, Some err)
           | (res, None) \<Rightarrow>
               andThen (index res 0) (\<lambda>r0.
                 if length (Series r0) > 0 \<and> length (Values (Series r0 ! 0)) > 0
                 then let val = Values (Series r0 ! 0) ! 0
                      in andThen (andThen (index val 1) asString) (\<lambda>s.
                           case json_Unmarshal E s emptyTree of (retval, err) \<Rightarrow>
                             andThen (andThen (index val 0) asString) (\<lambda>ts.
                               Return (retval, fst (time_Parse E ts), err)))
                 else Return (emptyTree, zeroTime, None))))"

definition GetStorageTreeByID :: "env \<Rightarrow> DBAudit \<Rightarrow> string \<Rightarrow> string \<Rightarrow> (MerkleTree \<times> error) result" where
  "GetStorageTreeByID E db topic key =
     (case influxClient db of
        None \<Rightarrow> Panic
      | Some cl \<Rightarrow>
          (case queryAuditDB cl (StorageByTime topic key) of
             (res, Some err) \<Rightarrow> Return (emptyTree, Some err)
           | (res, None) \<Rightarrow>
               andThen (index res 0) (\<lambda>r0.
                 if length (Series r0) > 0 \<and> length (Values (Series r0 ! 0)) > 0
                 then let val = Values (Series r0 ! 0) ! 0
                      in andThen (andThen (index val 1) asString) (\<lambda>s.
                           Return (json_Unmarshal E s emptyTree))
                 else Return (emptyTree, Some ''empty response''))))"

text \<open>\<open>GetLastID\<close>; \<open>now\<close> is the clock reading of the empty case.\<close>

definition GetLastID :: "env \<Rightarrow> time \<Rightarrow> DBAudit \<Rightarrow> string \<Rightarrow> (string \<times> error) result" where
  "GetLastID E now db topic =
     (case influxClient db of
        None \<Rightarrow> Panic
      | Some cl \<Rightarrow>
          (case queryAuditDB cl (StorageLatest topic) of
             (res, Some err) \<Rightarrow> Return (''0'', Some err)
           | (res, None) \<Rightarrow>
               andThen (index res 0) (\<lambda>r0.
                 if length (Series r0) = 0
                 then Return (FormatInt (UnixNano now), None)
                 else if length (Series r0) > 0 \<and> length (Values (Series r0 ! 0)) > 0
                 then let val = Values (Series r0 ! 0) ! 0
                      in andThen (andThen (index val 0) asString) (\<lambda>ts.
                           Return (FormatInt (UnixNano (fst (time_Parse E ts))), None))
                 else Return (''0'', Some ''empty response''))))"

section \<open>Saving to and reading the merkle table\<close>

text \<open>
  \<open>SetPoolID\<close>. The Go map \<open>poolMap\<close> is an association list with one entry per key;
  \<open>int(ID)\<close> is \<open>ID\<close> where \<open>int\<close> has 64 bits.
\<close>

definition SetPoolID :: "DBAudit \<Rightarrow> string \<Rightarrow> string list \<Rightarrow> int \<Rightarrow> (DBAudit \<times> error) result" where
  "SetPoolID db topic children parentID =
     (let poolMap = fold (\<lambda>num m. AList.update num parentID m) children [];
          key = getKeyPoolIDs topic
      in case redisClient db of
           None \<Rightarrow> Panic
         | Some r \<Rightarrow>
             (case redis_HSet r key poolMap of
                (r', Some err) \<Rightarrow> Return (db\<lparr>redisClient := Some r'\<rparr>, Some err)
              | (r', None) \<Rightarrow> Return (db\<lparr>redisClient := Some r'\<rparr>, None)))"

definition GetPoolsParentID :: "DBAudit \<Rightarrow> string \<Rightarrow> string \<Rightarrow> (int \<times> error) result" where
  "GetPoolsParentID db child topic =
     (let key = getKeyPoolIDs topic
      in case redisClient db of
           None \<Rightarrow> Panic
         | Some r \<Rightarrow>
             (case redis_HGet r key child of
                (val, Some err) \<Rightarrow>
                  if err = redis_Nil
                  then Return (- 2, Some (''no redis entry for pool ID '' @ child @ '' with topic '' @ topic
                                            @ '' '' @ [CHR 0x0A]))
                  else Return (- 2, Some err)
              | (val, None) \<Rightarrow>
                  (case ParseInt val of
                     (parsed, Some err) \<Rightarrow> Return (- 2, Some err)
                   | (parsed, None) \<Rightarrow> Return (parsed, None))))"

text \<open>
  \<open>SetDailyTreeInflux\<close>; \<open>now\<close> is the clock reading that becomes the point's time.
  The error of \<open>SetPoolID\<close> is not looked at.
\<close>

definition merkleTags :: "string \<Rightarrow> string \<Rightarrow> int \<Rightarrow> (string \<times> string) list" where
  "merkleTags topic level parentID =
     [(''topic'', topic), (''level'', level), (''id'', FormatInt parentID)]"

definition SetDailyTreeInflux :: "env \<Rightarrow> time \<Rightarrow> DBAudit \<Rightarrow> MerkleTree \<Rightarrow> int \<Rightarrow> string \<Rightarrow> string
    \<Rightarrow> string list \<Rightarrow> time \<Rightarrow> (DBAudit \<times> error) result" where
  "SetDailyTreeInflux E now db tree parentID topic level children lastTimestamp =
     (case json_Marshal E tree of
        (marshTree, Some err) \<Rightarrow> Return (db, Some err)
      | (marshTree, None) \<Rightarrow>
          andThen (if level = ''2''
                   then andThen (SetPoolID db topic children parentID) (\<lambda>(db', err). Return db')
                   else Return db) (\<lambda>db0.
            case json_Marshal_strings E children of
              (childrenData, Some err) \<Rightarrow> Return (db0, Some err)
            | (childrenData, None) \<Rightarrow>
                let tags = merkleTags topic level parentID;
                    fieldMap = [(''value'', marshTree),
                                (''children'', childrenData),
                                (''lastTimestamp'', FormatInt (UnixNano lastTimestamp))]
                in (case NewPoint E influxDBMerkleTable tags fieldMap now of
                      (Some pt, None) \<Rightarrow> andThen (addAuditPoint E db0 pt) WriteAuditBatchInflux
                    | _ \<Rightarrow> WriteAuditBatchInflux db0)))"

definition GetDailyTreeInflux :: "env \<Rightarrow> DBAudit \<Rightarrow> string \<Rightarrow> string \<Rightarrow> time
    \<Rightarrow> (MerkleTree \<times> int \<times> time \<times> error) result" where
  "GetDailyTreeInflux E db topic level timeLower =
     (case influxClient db of
        None \<Rightarrow> Panic
      | Some cl \<Rightarrow>
          (case queryAuditDB cl (MerkleEarliestAfter topic level (UnixNano timeLower)) of
             (res, Some err) \<Rightarrow> Return (emptyTree, 0, zeroTime, Some err)
           | (res, None) \<Rightarrow>
               andThen (index res 0) (\<lambda>r0.
                 if length (Series r0) > 0 \<and> length (Values (Series r0 ! 0)) > 0
                 then let val = Values (Series r0 ! 0) ! 0
                      in andThen (andThen (index val 0) asString) (\<lambda>ts.
                         andThen (andThen (index val 1) asString) (\<lambda>idText.
                           case ParseInt idText of
                             (parsed, Some err) \<Rightarrow> Fatal
                           | (parsed, None) \<Rightarrow>
                               andThen (andThen (index val 2) asString) (\<lambda>s.
                                 case json_Unmarshal E s emptyTree of (dailyTree, err) \<Rightarrow>
                                   Return (dailyTree, parsed, fst (time_Parse E ts), err))))
                 else Return (emptyTree, 0, zeroTime, None))))"

definition GetDailyTreeByID :: "env \<Rightarrow> DBAudit \<Rightarrow> string \<Rightarrow> string \<Rightarrow> int \<Rightarrow> (MerkleTree \<times> error) result" where
  "GetDailyTreeByID E db topic level parentID =
     (case influxClient db of
        None \<Rightarrow> Panic
      | Some cl \<Rightarrow>
          (case queryAuditDB cl (MerkleByID topic level (FormatInt parentID)) of
             (res, Some err) \<Rightarrow> Return (emptyTree, Some err)
           | (res, None) \<Rightarrow>
               andThen (index res 0) (\<lambda>r0.
                 if length (Series r0) = 0
                 then Return (emptyTree, None)
                 else andThen (index (Values (Series r0 ! 0)) 0) (\<lambda>val.
                        andThen (andThen (index val 6) asString) (\<lambda>s.
                          Return (json_Unmarshal E s emptyTree))))))"

definition GetLastTimestamp :: "env \<Rightarrow> time \<Rightarrow> DBAudit \<Rightarrow> string \<Rightarrow> string \<Rightarrow> (time \<times> error) result" where
  "GetLastTimestamp E now db topic level =
     (case influxClient db of
        None \<Rightarrow> Panic
      | Some cl \<Rightarrow>
          (case queryAuditDB cl (MerkleLastTimestamp topic level) of
             (res, Some err) \<Rightarrow> Return (zeroTime, Some err)
           | (res, None) \<Rightarrow>
               andThen (index res 0) (\<lambda>r0.
                 if length (Series r0) = 0
                 then Return (Time_AddDate E now 0 0 (- 10), None)
                 else andThen (index (Values (Series r0 ! 0)) 0) (\<lambda>val.
                        andThen (andThen (index val 1) asString) (\<lambda>s.
                          case ParseInt s of
                            (i, Some err) \<Rightarrow> Return (zeroTime, Some err)
                          | (i, None) \<Rightarrow> Return (i, None))))))"

definition GetLastIDMerkle :: "env \<Rightarrow> DBAudit \<Rightarrow> string \<Rightarrow> string \<Rightarrow> (int \<times> error) result" where
  "GetLastIDMerkle E db topic level =
     (case influxClient db of
        None \<Rightarrow> Panic
      | Some cl \<Rightarrow>
          (case queryAuditDB cl (MerkleLastID topic level) of
             (res, Some err) \<Rightarrow> Return (0, Some err)
           | (res, None) \<Rightarrow>
               andThen (index res 0) (\<lambda>r0.
                 if length (Series r0) = 0
                 then Return (- 1, None)
                 else andThen (index (Values (Series r0 ! 0)) 0) (\<lambda>val.
                        andThen (andThen (index val 1) asString) (\<lambda>s.
                          Return (ParseInt s))))))"

section \<open>Finding the tree of a datum\<close>

definition FindStorageTree :: "env \<Rightarrow> DBAudit \<Rightarrow> string \<Rightarrow> time \<Rightarrow> string \<Rightarrow> (string \<times> error) result" where
  "FindStorageTree E db data timeData topic =
     andThen (GetStorageTreeInflux E db topic timeData) (\<lambda>(tree, timeTree, err).
       if err \<noteq> None then Return ([], err)
       else (case DataInStorageTree E data tree of
               (isContained, Some err2) \<Rightarrow> Return ([], Some err2)
             | (isContained, None) \<Rightarrow>
                 if isContained then Return (Time_String E timeTree, None)
                 else Return ([], None)))"

section \<open>An environment and stores for running the model\<close>

text \<open>
  Go's \<open>time.Parse\<close> with the layout \<open>RFC3339Nano\<close>, for the UTC form the server
  sends (\<open>2006-01-02T15:04:05.999999999Z\<close>; other texts are refused, and a refused
  text gives the zero time), \<open>Time.String\<close> of a UTC time, and \<open>Time.AddDate\<close> in UTC.
\<close>

definition number :: "string \<Rightarrow> int option" where
  "number s = (if s = [] then None else map_option int (parse_digits 0 s))"

definition parseRFC3339Nano :: "string \<Rightarrow> time \<times> error" where
  "parseRFC3339Nano s =
     (let bad = (zeroTime, Some ''parsing time: cannot parse'');
          frac = takeWhile (\<lambda>c. c \<noteq> CHR ''Z'') (drop 19 s)
      in if length s < 20 \<or> s ! 4 \<noteq> CHR ''-'' \<or> s ! 7 \<noteq> CHR ''-'' \<or> s ! 10 \<noteq> CHR ''T''
            \<or> s ! 13 \<noteq> CHR '':'' \<or> s ! 16 \<noteq> CHR '':'' \<or> drop (19 + length frac) s \<noteq> ''Z''
            \<or> (frac \<noteq> [] \<and> (hd frac \<noteq> CHR ''.'' \<or> length frac < 2 \<or> length frac > 10))
         then bad
         else (case (number (take 4 s), number (take 2 (drop 5 s)), number (take 2 (drop 8 s)),
                     number (take 2 (drop 11 s)), number (take 2 (drop 14 s)), number (take 2 (drop 17 s)),
                     number (take 9 (tl frac @ replicate 9 CHR ''0''))) of
                 (Some y, Some m, Some d, Some hh, Some mm, Some ss, Some ns) \<Rightarrow>
                   if m < 1 \<or> 12 < m \<or> d < 1
                      \<or> days_from_civil y m d + 1 > days_from_civil (if m = 12 then y + 1 else y) (if m = 12 then 1 else m + 1) 1
                      \<or> 23 < hh \<or> 59 < mm \<or> 59 < ss
                   then bad
                   else (((days_from_civil y m d * 86400 + hh * 3600 + mm * 60 + ss) * 1000000000 + ns), None)
               | _ \<Rightarrow> bad))"

definition goTimeString :: "time \<Rightarrow> string" where
  "goTimeString t =
     (let secs = t div 1000000000; ns = t mod 1000000000
      in dateText (secs div 86400) @ '' '' @ clockText (secs mod 86400) @ fraction ns @ '' +0000 UTC'')"

definition addDateUTC :: "time \<Rightarrow> int \<Rightarrow> int \<Rightarrow> int \<Rightarrow> time" where
  "addDateUTC t years months days =
     (let secs = t div 1000000000; ns = t mod 1000000000
      in case civil_from_days (secs div 86400) of (y, m, d) \<Rightarrow>
           let mm = m - 1 + months;
               day = days_from_civil (y + years + mm div 12) (mm mod 12 + 1) 1 + (d - 1) + days
           in (day * 86400 + secs mod 86400) * 1000000000 + ns)"

text \<open>
  Two buckets sealed into a tree, the tree as \<open>SetStorageTreeInflux\<close> rebuilds it at
  the clock reading 1700000000000000000 (14 November 2023, 22:13:20 UTC), and a daily
  tree over the identifiers of three storage trees.
\<close>

definition exampleTree :: MerkleTree where
  "exampleTree =
     \<lparr>Leafs = [\<lparr>C = Bucket \<lparr>ID = [], Timestamp = 1699999990000000000, Payload = ''btc 35000''\<rparr>\<rparr>,
               \<lparr>C = Bucket \<lparr>ID = [], Timestamp = 1699999995000000000, Payload = ''eth 2000''\<rparr>\<rparr>],
      merkleRoot = ''r0''\<rparr>"

definition sealedTree :: MerkleTree where
  "sealedTree =
     \<lparr>Leafs = [\<lparr>C = Bucket \<lparr>ID = ''1700000000000000000.0'', Timestamp = 1699999990000000000,
                            Payload = ''btc 35000''\<rparr>\<rparr>,
               \<lparr>C = Bucket \<lparr>ID = ''1700000000000000000.1'', Timestamp = 1699999995000000000,
                            Payload = ''eth 2000''\<rparr>\<rparr>],
      merkleRoot = []\<rparr>"

definition dailyTree :: MerkleTree where
  "dailyTree =
     \<lparr>Leafs = [\<lparr>C = OtherContent ''100.0''\<rparr>, \<lparr>C = OtherContent ''100.1''\<rparr>,
               \<lparr>C = OtherContent ''100.2''\<rparr>, \<lparr>C = OtherContent ''100.2''\<rparr>],
      merkleRoot = ''r1''\<rparr>"

text \<open>
  The environment of the examples. Its tree constructor keeps the contents and leaves the
  hashes out, its membership check compares payloads, and its codec writes a tree
  as the list of its leaf identifiers and reads the texts of the example trees;
  \<open>null\<close> and \<open>{}\<close> decode to the value decoded into, as in Go.
\<close>

definition exampleNewTree :: "Content list \<Rightarrow> MerkleTree \<times> error" where
  "exampleNewTree cs =
     (if cs = [] then (emptyTree, Some ''error: cannot construct tree with no content'')
      else (\<lparr>Leafs = map (\<lambda>c. \<lparr>C = c\<rparr>) cs, merkleRoot = []\<rparr>, None))"

definition exampleContains :: "string \<Rightarrow> MerkleTree \<Rightarrow> bool \<times> error" where
  "exampleContains data tree =
     (list_ex (\<lambda>leaf. case C leaf of Bucket b \<Rightarrow> Payload b = data | OtherContent s \<Rightarrow> False) (Leafs tree),
      None)"

definition leafText :: "Node \<Rightarrow> string" where
  "leafText leaf = (case C leaf of Bucket b \<Rightarrow> ID b @ '';'' | OtherContent s \<Rightarrow> s @ '';'')"

definition exampleMarshal :: "MerkleTree \<Rightarrow> string \<times> error" where
  "exampleMarshal tree = (''{'' @ concat (map leafText (Leafs tree)) @ ''}'', None)"

definition sealedText :: string where
  "sealedText = ''{1700000000000000000.0;1700000000000000000.1;}''"

definition dailyText :: string where
  "dailyText = ''{100.0;100.1;100.2;100.2;}''"

definition exampleUnmarshal :: "string \<Rightarrow> MerkleTree \<Rightarrow> MerkleTree \<times> error" where
  "exampleUnmarshal s into =
     (if s = sealedText then (sealedTree, None)
      else if s = dailyText then (dailyTree, None)
      else if s = ''{}'' \<or> s = ''null'' then (into, None)
      else (into, Some ''invalid character''))"

definition exampleEnv :: env where
  "exampleEnv =
     \<lparr>influxMaxPointsInBatch = 5000,
      NewTree = exampleNewTree,
      DataInStorageTree = exampleContains,
      json_Marshal = exampleMarshal,
      json_Unmarshal = exampleUnmarshal,
      json_Marshal_strings = (\<lambda>xs. (concat (map (\<lambda>x. x @ '','') xs), None)),
      NewPoint_error = (\<lambda>name tags fieldMap t. if fieldMap = [] then Some ''expected at least one field'' else None),
      time_Parse = parseRFC3339Nano,
      Time_String = goTimeString,
      Time_AddDate = addDateUTC\<rparr>"

text \<open>
  A store with both clients set up and nothing written, and one whose server refuses
  the next write while two points wait in the batch.
\<close>

definition emptyStore :: DBAudit where
  "emptyStore =
     \<lparr>redisClient = Some \<lparr>redisOutcomes = [], hashes = (\<lambda>key. Map.empty)\<rparr>,
      influxClient = Some \<lparr>writeOutcomes = [], queryOutcome = None, rows = []\<rparr>,
      influxBatchPoints = fst createAuditBatchInflux,
      influxPointsInBatch = 0\<rparr>"

definition examplePoint :: "int \<Rightarrow> point" where
  "examplePoint t =
     \<lparr>pname = ''storage'',
      ptags = [(''topic'', ''prices''), (''firstDate'', FormatInt (t - 10)), (''lastDate'', FormatInt (t - 5))],
      pfields = [(''value'', sealedText)],
      ptime = t\<rparr>"

definition failingStore :: DBAudit where
  "failingStore =
     \<lparr>redisClient = None,
      influxClient = Some \<lparr>writeOutcomes = [Some ''connection refused''], queryOutcome = None, rows = []\<rparr>,
      influxBatchPoints = Some \<lparr>Points = [examplePoint 10, examplePoint 20], Database = ''audit'', Precision = ''ns''\<rparr>,
      influxPointsInBatch = 2\<rparr>"

text \<open>
  The store after pooling three storage trees under the parent 500, a store whose Redis
  server refuses the next request, and that store after \<open>SetDailyTreeInflux\<close> at level 2
  with the clock at 1700000100000000000.
\<close>

definition pooledStore :: DBAudit where
  "pooledStore =
     emptyStore\<lparr>redisClient := Some \<lparr>redisOutcomes = [],
        hashes = (\<lambda>key. Map.empty)(''HashedPoolsMap_prices'' :=
          [''100.0'' \<mapsto> ''500'', ''100.1'' \<mapsto> ''500'', ''100.2'' \<mapsto> ''500''])\<rparr>\<rparr>"

definition redisDownStore :: DBAudit where
  "redisDownStore =
     emptyStore\<lparr>redisClient := Some \<lparr>redisOutcomes = [Some ''dial tcp: connection refused''],
        hashes = (\<lambda>key. Map.empty)\<rparr>\<rparr>"

definition dailyPoint :: point where
  "dailyPoint =
     \<lparr>pname = ''merkle'',
      ptags = [(''topic'', ''prices''), (''level'', ''2''), (''id'', ''500'')],
      pfields = [(''value'', dailyText), (''children'', ''100.0,100.1,100.2,''),
                 (''lastTimestamp'', ''1699999995000000000'')],
      ptime = 1700000100000000000\<rparr>"

definition unpooledStore :: DBAudit where
  "unpooledStore =
     \<lparr>redisClient = Some \<lparr>redisOutcomes = [], hashes = (\<lambda>key. Map.empty)\<rparr>,
      influxClient = Some \<lparr>writeOutcomes = [], queryOutcome = None, rows = [dailyPoint]\<rparr>,
      influxBatchPoints = Some \<lparr>Points = [dailyPoint], Database = ''audit'', Precision = ''ns''\<rparr>,
      influxPointsInBatch = 0\<rparr>"

text \<open>
  A store that holds the sealed tree under the time 1700000000000000000 and the daily
  tree 500 under the time 1700000100000000000.
\<close>

definition storedStore :: DBAudit where
  "storedStore =
     emptyStore\<lparr>influxClient :=
       Some \<lparr>writeOutcomes = [], queryOutcome = None,
             rows = [examplePoint 1700000000000000000, dailyPoint]\<rparr>\<rparr>"

text \<open>A store that holds under the identifier 500 a daily tree without leaves.\<close>

definition emptyDailyPoint :: point where
  "emptyDailyPoint =
     \<lparr>pname = ''merkle'',
      ptags = [(''topic'', ''prices''), (''level'', ''2''), (''id'', ''500'')],
      pfields = [(''value'', ''{}''), (''children'', []), (''lastTimestamp'', ''1699999995000000000'')],
      ptime = 1700000100000000000\<rparr>"

definition emptyTreeStore :: DBAudit where
  "emptyTreeStore =
     emptyStore\<lparr>influxClient :=
       Some \<lparr>writeOutcomes = [], queryOutcome = None, rows = [emptyDailyPoint]\<rparr>\<rparr>"

text \<open>
  A tree whose buckets carry timestamps half a second and more after the clock reading
  1700000000000000001 taken by \<open>SetStorageTreeInflux\<close>, and the point written for it.
\<close>

definition futureTree :: MerkleTree where
  "futureTree =
     \<lparr>Leafs = [\<lparr>C = Bucket \<lparr>ID = [], Timestamp = 1700000000500000000, Payload = ''btc 35000''\<rparr>\<rparr>,
               \<lparr>C = Bucket \<lparr>ID = [], Timestamp = 1700000000600000000, Payload = ''eth 2000''\<rparr>\<rparr>],
      merkleRoot = ''r0''\<rparr>"

definition futurePoint :: point where
  "futurePoint =
     \<lparr>pname = ''storage'',
      ptags = [(''topic'', ''prices''), (''firstDate'', ''1700000000000000001''),
               (''lastDate'', ''1700000000600000000'')],
      pfields = [(''value'', sealedText)],
      ptime = 1700000000000000000\<rparr>"

definition futureStore :: DBAudit where
  "futureStore =
     emptyStore\<lparr>influxClient := Some \<lparr>writeOutcomes = [], queryOutcome = None, rows = [futurePoint]\<rparr>,
                influxBatchPoints := Some \<lparr>Points = [futurePoint], Database = ''audit'', Precision = ''ns''\<rparr>\<rparr>"

definition refusedStore :: DBAudit where
  "refusedStore =
     failingStore\<lparr>influxClient := Some \<lparr>writeOutcomes = [], queryOutcome = None, rows = []\<rparr>,
                  influxBatchPoints := Some \<lparr>Points = [], Database = ''audit'', Precision = ''ns''\<rparr>\<rparr>"

text \<open>
  A store set up as \<open>emptyStore\<close>, with nothing appended yet, whose server refuses the
  next write.
\<close>

definition freshRefusingStore :: DBAudit where
  "freshRefusingStore =
     emptyStore\<lparr>influxClient :=
       Some \<lparr>writeOutcomes = [Some ''connection refused''], queryOutcome = None, rows = []\<rparr>\<rparr>"

section \<open>Leaf identifiers\<close>

lemma leafLoop_ids:
  "\<forall>l \<in> set leafs. isBucket (C l) \<Longrightarrow>
   \<exists>bs fd ld. leafLoop t leafs i (acc, f0, l0) = Return (acc @ bs, fd, ld) \<and>
     length bs = length leafs \<and>
     (\<forall>j < length leafs. \<exists>b. C (leafs ! j) = Bucket b \<and>
        bs ! j = Bucket (b\<lparr>ID := FormatInt (UnixNano t) @ ''.'' @ FormatInt (int (i + j))\<rparr>))"
proof (induction leafs arbitrary: i acc f0 l0)
  case Nil
  then show ?case by simp
next
  case (Cons leaf rest)
  from Cons.prems obtain b where b: "C leaf = Bucket b"
    by (cases "C leaf") auto
  define nb where "nb = b\<lparr>ID := FormatInt (UnixNano t) @ ''.'' @ FormatInt (int i)\<rparr>"
  define l1 where "l1 = (if Before l0 (Timestamp nb) then Timestamp nb else l0)"
  define f1 where "f1 = (if Before (Timestamp nb) f0 then Timestamp nb else f0)"
  from Cons.prems have "\<forall>l \<in> set rest. isBucket (C l)" by simp
  from Cons.IH [OF this, of "Suc i" "acc @ [Bucket nb]" f1 l1]
  obtain bs fd ld where
    run: "leafLoop t rest (Suc i) (acc @ [Bucket nb], f1, l1) = Return ((acc @ [Bucket nb]) @ bs, fd, ld)"
    and len: "length bs = length rest"
    and ids: "\<forall>j < length rest. \<exists>b. C (rest ! j) = Bucket b \<and>
        bs ! j = Bucket (b\<lparr>ID := FormatInt (UnixNano t) @ ''.'' @ FormatInt (int (Suc i + j))\<rparr>)"
    by blast
  have step: "leafLoop t (leaf # rest) i (acc, f0, l0) = Return (acc @ (Bucket nb # bs), fd, ld)"
    using run b by (auto simp: nb_def l1_def f1_def Let_def split: if_splits)
  have "\<exists>b'. C ((leaf # rest) ! j) = Bucket b' \<and>
          (Bucket nb # bs) ! j = Bucket (b'\<lparr>ID := FormatInt (UnixNano t) @ ''.'' @ FormatInt (int (i + j))\<rparr>)"
    if "j < length (leaf # rest)" for j
  proof (cases j)
    case 0
    then show ?thesis using b by (simp add: nb_def)
  next
    case (Suc k)
    with that have "k < length rest" by simp
    with ids Suc show ?thesis by simp
  qed
  with step len show ?case by auto
qed

text \<open>
  C1. A call of \<open>SetStorageTreeInflux\<close> on a tree of storage buckets reads the build
  time \<open>influxTimeID\<close> once, and its loop gives the leaf at every index \<open>i\<close> below the
  number of leaves the identifier made of the build time in nanoseconds, a dot and
  \<open>i\<close>: the identifiers share the build time as prefix and the indices run from 0
  without a gap. Nothing else of a bucket changes. These buckets are what the call
  builds the tree from: it returns the error of \<open>NewTree\<close> on them, and otherwise
  appends and flushes the point that holds the tree built from them under the build
  time.
\<close>

theorem SetStorageTreeInflux_leaf_identifiers:
  assumes "\<forall>l \<in> set (Leafs tree). isBucket (C l)"
  shows "\<exists>bucketsWithID firstDate lastDate.
           leafLoop influxTimeID (Leafs tree) 0 ([], nowFirst, zeroTime)
             = Return (bucketsWithID, firstDate, lastDate) \<and>
           length bucketsWithID = length (Leafs tree) \<and>
           (\<forall>i < length (Leafs tree). \<exists>b. C (Leafs tree ! i) = Bucket b \<and>
              bucketsWithID ! i =
                Bucket (b\<lparr>ID := FormatInt (UnixNano influxTimeID) @ ''.'' @ FormatInt (int i)\<rparr>)) \<and>
           (\<forall>treeWithID e. NewTree E bucketsWithID = (treeWithID, Some e) \<longrightarrow>
              SetStorageTreeInflux E influxTimeID nowFirst db tree topic = Return (db, Some e)) \<and>
           (\<forall>treeWithID. NewTree E bucketsWithID = (treeWithID, None) \<longrightarrow>
              NewPoint_error E influxDBStorageTable (storageTags topic firstDate lastDate)
                [(''value'', fst (json_Marshal E treeWithID))] influxTimeID = None \<longrightarrow>
              SetStorageTreeInflux E influxTimeID nowFirst db tree topic =
                andThen (addAuditPoint E db
                    \<lparr>pname = influxDBStorageTable, ptags = storageTags topic firstDate lastDate,
                     pfields = [(''value'', fst (json_Marshal E treeWithID))],
                     ptime = UnixNano influxTimeID\<rparr>)
                  WriteAuditBatchInflux)"
proof -
  from leafLoop_ids [OF assms, of influxTimeID 0 "[]" nowFirst zeroTime]
  obtain bs fd ld where
    run: "leafLoop influxTimeID (Leafs tree) 0 ([], nowFirst, zeroTime) = Return (bs, fd, ld)"
    and len: "length bs = length (Leafs tree)"
    and ids: "\<forall>i < length (Leafs tree). \<exists>b. C (Leafs tree ! i) = Bucket b \<and>
              bs ! i = Bucket (b\<lparr>ID := FormatInt (UnixNano influxTimeID) @ ''.'' @ FormatInt (int i)\<rparr>)"
    by auto
  have rejected: "SetStorageTreeInflux E influxTimeID nowFirst db tree topic = Return (db, Some e)"
    if "NewTree E bs = (treeWithID, Some e)" for treeWithID e
    using that by (simp add: SetStorageTreeInflux_def run)
  have accepted: "SetStorageTreeInflux E influxTimeID nowFirst db tree topic =
                andThen (addAuditPoint E db
                    \<lparr>pname = influxDBStorageTable, ptags = storageTags topic fd ld,
                     pfields = [(''value'', fst (json_Marshal E treeWithID))],
                     ptime = UnixNano influxTimeID\<rparr>)
                  WriteAuditBatchInflux"
    if "NewTree E bs = (treeWithID, None)"
      and "NewPoint_error E influxDBStorageTable (storageTags topic fd ld)
                [(''value'', fst (json_Marshal E treeWithID))] influxTimeID = None"
    for treeWithID
    using that by (simp add: SetStorageTreeInflux_def run NewPoint_def andThen_def Let_def)
  from run len ids rejected accepted show ?thesis by blast
qed

theorem SetStorageTreeInflux_leaf_identifiers_witness:
  "\<exists>bucketsWithID firstDate lastDate.
     leafLoop 1700000000000000000 (Leafs exampleTree) 0 ([], 1700000000000000001, zeroTime)
       = Return (bucketsWithID, firstDate, lastDate) \<and>
     length bucketsWithID = length (Leafs exampleTree) \<and>
     (\<forall>i < length (Leafs exampleTree). \<exists>b. C (Leafs exampleTree ! i) = Bucket b \<and>
        bucketsWithID ! i =
          Bucket (b\<lparr>ID := FormatInt (UnixNano 1700000000000000000) @ ''.'' @ FormatInt (int i)\<rparr>))"
proof -
  have buckets: "\<forall>l \<in> set (Leafs exampleTree). isBucket (C l)"
    by (simp add: exampleTree_def)
  from SetStorageTreeInflux_leaf_identifiers [OF buckets, of 1700000000000000000 1700000000000000001
      exampleEnv emptyStore "''prices''"]
  show ?thesis by blast
qed

section \<open>The batch after a failed flush\<close>

lemma createAuditBatchInflux_eq:
  "createAuditBatchInflux = (Some \<lparr>Points = [], Database = ''audit'', Precision = ''ns''\<rparr>, None)"
  by (simp add: createAuditBatchInflux_def NewBatchPoints_def auditDBName_def)

lemma WriteAuditBatchInflux_failed:
  assumes "WriteAuditBatchInflux db = Return (db1, Some e)"
  shows "influxBatchPoints db1 = fst createAuditBatchInflux"
    and "influxPointsInBatch db1 = influxPointsInBatch db"
    and "redisClient db1 = redisClient db"
    and "\<exists>cl. influxClient db1 = Some cl"
  using assms
  by (auto simp: WriteAuditBatchInflux_def split: option.splits prod.splits)

lemma WriteAuditBatchInflux_ok:
  assumes "WriteAuditBatchInflux db = Return (db1, None)"
  shows "influxBatchPoints db1 = influxBatchPoints db"
    and "influxPointsInBatch db1 = 0"
    and "redisClient db1 = redisClient db"
    and "\<exists>cl cl1 bp. influxClient db = Some cl \<and> influxBatchPoints db = Some bp \<and>
           influxClient db1 = Some cl1 \<and> rows cl1 = fold upsert (Points bp) (rows cl)"
  using assms
  by (auto simp: WriteAuditBatchInflux_def influx_Write_def split: option.splits prod.splits list.splits)

lemma addAuditPoint_below:
  assumes "influxBatchPoints db = Some bp" "influxPointsInBatch db + 1 < influxMaxPointsInBatch E"
  shows "addAuditPoint E db pt =
     Return (db\<lparr>influxBatchPoints := Some (bp\<lparr>Points := Points bp @ [pt]\<rparr>),
                 influxPointsInBatch := influxPointsInBatch db + 1\<rparr>)"
  using assms by (simp add: addAuditPoint_def Let_def)

lemma addAuditPoint_reached:
  assumes "influxBatchPoints db = Some bp" "influxMaxPointsInBatch E \<le> influxPointsInBatch db + 1"
  shows "addAuditPoint E db pt =
     (case WriteAuditBatchInflux (db\<lparr>influxBatchPoints := Some (bp\<lparr>Points := Points bp @ [pt]\<rparr>),
                 influxPointsInBatch := influxPointsInBatch db + 1\<rparr>) of
        Return (db2, err) \<Rightarrow> Return db2 | Panic \<Rightarrow> Panic | Fatal \<Rightarrow> Fatal)"
  using assms by (simp add: addAuditPoint_def Let_def)

lemma failingStore_write:
  "WriteAuditBatchInflux failingStore = Return (refusedStore, Some ''connection refused'')"
  by (simp add: WriteAuditBatchInflux_def failingStore_def refusedStore_def influx_Write_def
      createAuditBatchInflux_eq)

text \<open>
  C6. When the flush of the batch fails, \<open>WriteAuditBatchInflux\<close> replaces the batch by
  the one \<open>createAuditBatchInflux\<close> makes, which has no points. The next
  \<open>addAuditPoint\<close> returns, whatever the server \<open>cl\<close> does by then, and has appended
  to that empty batch: the batch holds the new point alone, unless the append reached
  the threshold and the flush it forced failed again, which leaves a new empty batch.
  Once the server accepts writes, the append followed by a flush stores the point.
\<close>

theorem failed_flush_gives_fresh_batch:
  assumes "WriteAuditBatchInflux db = Return (db1, Some e)"
  shows "influxBatchPoints db1 = fst createAuditBatchInflux \<and>
         (\<exists>bp. influxBatchPoints db1 = Some bp \<and> Points bp = []) \<and>
         (\<exists>db2 bp2. addAuditPoint E (db1\<lparr>influxClient := Some cl\<rparr>) pt = Return db2 \<and>
            influxBatchPoints db2 = Some bp2 \<and>
            (Points bp2 = [pt] \<or>
             Points bp2 = [] \<and> influxMaxPointsInBatch E \<le> influxPointsInBatch db + 1 \<and>
               (\<exists>e' later. writeOutcomes cl = Some e' # later))) \<and>
         (writeOutcomes cl = [] \<longrightarrow>
            (\<exists>db2 db3 cl3. addAuditPoint E (db1\<lparr>influxClient := Some cl\<rparr>) pt = Return db2 \<and>
               WriteAuditBatchInflux db2 = Return (db3, None) \<and>
               influxClient db3 = Some cl3 \<and> pt \<in> set (rows cl3)))"
proof -
  note f = WriteAuditBatchInflux_failed [OF assms]
  let ?fresh = "\<lparr>Points = [], Database = ''audit'', Precision = ''ns''\<rparr>"
  have b1: "influxBatchPoints db1 = Some ?fresh"
    using f(1) by (simp add: createAuditBatchInflux_eq)
  let ?d = "db1\<lparr>influxClient := Some cl\<rparr>"
  have bd: "influxBatchPoints ?d = Some ?fresh" using b1 by simp
  have third: "\<exists>db2 bp2. addAuditPoint E ?d pt = Return db2 \<and>
            influxBatchPoints db2 = Some bp2 \<and>
            (Points bp2 = [pt] \<or>
             Points bp2 = [] \<and> influxMaxPointsInBatch E \<le> influxPointsInBatch db + 1 \<and>
               (\<exists>e' later. writeOutcomes cl = Some e' # later))"
  proof (cases "influxPointsInBatch ?d + 1 < influxMaxPointsInBatch E")
    case True
    from addAuditPoint_below [OF bd True, of pt] show ?thesis by simp
  next
    case False
    then have r: "influxMaxPointsInBatch E \<le> influxPointsInBatch ?d + 1" by simp
    from addAuditPoint_reached [OF bd r, of pt] f(2) r show ?thesis
      by (auto simp: WriteAuditBatchInflux_def influx_Write_def createAuditBatchInflux_eq
          split: list.splits option.splits)
  qed
  have fourth: "\<exists>db2 db3 cl3. addAuditPoint E ?d pt = Return db2 \<and>
               WriteAuditBatchInflux db2 = Return (db3, None) \<and>
               influxClient db3 = Some cl3 \<and> pt \<in> set (rows cl3)" if w: "writeOutcomes cl = []"
  proof (cases "influxPointsInBatch ?d + 1 < influxMaxPointsInBatch E")
    case True
    from addAuditPoint_below [OF bd True, of pt] w show ?thesis
      by (simp add: WriteAuditBatchInflux_def influx_Write_def upsert_def)
  next
    case False
    then have r: "influxMaxPointsInBatch E \<le> influxPointsInBatch ?d + 1" by simp
    from addAuditPoint_reached [OF bd r, of pt] w show ?thesis
      by (simp add: WriteAuditBatchInflux_def influx_Write_def upsert_def)
  qed
  have second: "\<exists>bp. influxBatchPoints db1 = Some bp \<and> Points bp = []"
    using b1 by simp
  show ?thesis
  proof (intro conjI impI)
    show "influxBatchPoints db1 = fst createAuditBatchInflux" by (rule f(1))
    show "\<exists>bp. influxBatchPoints db1 = Some bp \<and> Points bp = []" by (rule second)
    show "\<exists>db2 bp2. addAuditPoint E ?d pt = Return db2 \<and>
            influxBatchPoints db2 = Some bp2 \<and>
            (Points bp2 = [pt] \<or>
             Points bp2 = [] \<and> influxMaxPointsInBatch E \<le> influxPointsInBatch db + 1 \<and>
               (\<exists>e' later. writeOutcomes cl = Some e' # later))" by (rule third)
    show "\<exists>db2 db3 cl3. addAuditPoint E ?d pt = Return db2 \<and>
               WriteAuditBatchInflux db2 = Return (db3, None) \<and>
               influxClient db3 = Some cl3 \<and> pt \<in> set (rows cl3)" if "writeOutcomes cl = []"
      using fourth [OF that] .
  qed
qed

theorem failed_flush_gives_fresh_batch_witness:
  "WriteAuditBatchInflux failingStore = Return (refusedStore, Some ''connection refused'') \<and>
   influxBatchPoints refusedStore = fst createAuditBatchInflux \<and>
   (\<exists>bp. influxBatchPoints refusedStore = Some bp \<and> Points bp = []) \<and>
   (\<exists>db2 db3 cl3.
      addAuditPoint exampleEnv
        (refusedStore\<lparr>influxClient := Some \<lparr>writeOutcomes = [], queryOutcome = None, rows = []\<rparr>\<rparr>)
        (examplePoint 30) = Return db2 \<and>
      WriteAuditBatchInflux db2 = Return (db3, None) \<and>
      influxClient db3 = Some cl3 \<and> examplePoint 30 \<in> set (rows cl3))"
proof -
  note t = failed_flush_gives_fresh_batch [OF failingStore_write, of exampleEnv
      "\<lparr>writeOutcomes = [], queryOutcome = None, rows = []\<rparr>" "examplePoint 30"]
  from t have a: "influxBatchPoints refusedStore = fst createAuditBatchInflux" by (rule conjunct1)
  from t have b: "\<exists>bp. influxBatchPoints refusedStore = Some bp \<and> Points bp = []"
    by (elim conjE)
  from t have c: "\<exists>db2 db3 cl3.
      addAuditPoint exampleEnv
        (refusedStore\<lparr>influxClient := Some \<lparr>writeOutcomes = [], queryOutcome = None, rows = []\<rparr>\<rparr>)
        (examplePoint 30) = Return db2 \<and>
      WriteAuditBatchInflux db2 = Return (db3, None) \<and>
      influxClient db3 = Some cl3 \<and> examplePoint 30 \<in> set (rows cl3)"
    by simp
  from failingStore_write a b c show ?thesis by (intro conjI)
qed

text \<open>
  C10 (as amended). \<open>WriteAuditBatchInflux\<close> sets the counter \<open>influxPointsInBatch\<close>
  to zero only when the write succeeds. When it fails, the batch is replaced by an empty
  one and the counter keeps its value. Where the counter was positive before the failed
  flush, it now exceeds the number of points in the batch; and where the kept counter is
  one below the threshold, the next \<open>addAuditPoint\<close> already forces a flush, of a batch
  that holds the one new point.
\<close>

theorem counter_kept_on_failed_flush:
  assumes "WriteAuditBatchInflux db = Return (db1, err)"
  shows "(err = None \<longrightarrow> influxPointsInBatch db1 = 0) \<and>
         (err \<noteq> None \<longrightarrow>
            (\<exists>bp. influxBatchPoints db1 = Some bp \<and> Points bp = [] \<and>
               influxPointsInBatch db1 = influxPointsInBatch db \<and>
               (0 < influxPointsInBatch db \<longrightarrow> int (length (Points bp)) < influxPointsInBatch db1) \<and>
               (influxMaxPointsInBatch E \<le> influxPointsInBatch db + 1 \<longrightarrow>
                  addAuditPoint E db1 pt =
                    (case WriteAuditBatchInflux
                            (db1\<lparr>influxBatchPoints := Some (bp\<lparr>Points := [pt]\<rparr>),
                                 influxPointsInBatch := influxPointsInBatch db + 1\<rparr>) of
                       Return (db2, err2) \<Rightarrow> Return db2 | Panic \<Rightarrow> Panic | Fatal \<Rightarrow> Fatal))))"
proof (cases err)
  case None
  with WriteAuditBatchInflux_ok(2) [of db db1] assms show ?thesis by simp
next
  case (Some e)
  with assms have a: "WriteAuditBatchInflux db = Return (db1, Some e)" by simp
  note f = WriteAuditBatchInflux_failed [OF a]
  let ?fresh = "\<lparr>Points = [], Database = ''audit'', Precision = ''ns''\<rparr>"
  have b1: "influxBatchPoints db1 = Some ?fresh"
    using f(1) by (simp add: createAuditBatchInflux_eq)
  have "addAuditPoint E db1 pt =
          (case WriteAuditBatchInflux
                  (db1\<lparr>influxBatchPoints := Some (?fresh\<lparr>Points := [pt]\<rparr>),
                       influxPointsInBatch := influxPointsInBatch db + 1\<rparr>) of
             Return (db2, err2) \<Rightarrow> Return db2 | Panic \<Rightarrow> Panic | Fatal \<Rightarrow> Fatal)"
    if "influxMaxPointsInBatch E \<le> influxPointsInBatch db + 1"
    using addAuditPoint_reached [OF b1, of E pt] that f(2) by simp
  with b1 f(2) Some show ?thesis by simp
qed

theorem counter_kept_on_failed_flush_witness:
  "influxPointsInBatch failingStore = 2 \<and>
   influxPointsInBatch refusedStore = 2 \<and>
   (\<exists>bp. influxBatchPoints refusedStore = Some bp \<and> Points bp = [] \<and>
      int (length (Points bp)) < influxPointsInBatch refusedStore) \<and>
   (\<exists>db2 cl2. addAuditPoint (exampleEnv\<lparr>influxMaxPointsInBatch := 3\<rparr>) refusedStore (examplePoint 30)
        = Return db2 \<and>
      influxPointsInBatch db2 = 0 \<and> influxClient db2 = Some cl2 \<and> rows cl2 = [examplePoint 30])"
proof -
  note t = counter_kept_on_failed_flush [OF failingStore_write,
      of "exampleEnv\<lparr>influxMaxPointsInBatch := 3\<rparr>" "examplePoint 30"]
  have n: "influxPointsInBatch failingStore = 2" by (simp add: failingStore_def)
  from t n obtain bp where bp: "influxBatchPoints refusedStore = Some bp" "Points bp = []"
      "influxPointsInBatch refusedStore = 2"
      "addAuditPoint (exampleEnv\<lparr>influxMaxPointsInBatch := 3\<rparr>) refusedStore (examplePoint 30) =
         (case WriteAuditBatchInflux
                 (refusedStore\<lparr>influxBatchPoints := Some (bp\<lparr>Points := [examplePoint 30]\<rparr>),
                      influxPointsInBatch := influxPointsInBatch failingStore + 1\<rparr>) of
            Return (db2, err2) \<Rightarrow> Return db2 | Panic \<Rightarrow> Panic | Fatal \<Rightarrow> Fatal)"
    by auto
  have "\<exists>db2 cl2. addAuditPoint (exampleEnv\<lparr>influxMaxPointsInBatch := 3\<rparr>) refusedStore (examplePoint 30)
        = Return db2 \<and>
      influxPointsInBatch db2 = 0 \<and> influxClient db2 = Some cl2 \<and> rows cl2 = [examplePoint 30]"
    unfolding bp(4)
    by (simp add: WriteAuditBatchInflux_def refusedStore_def failingStore_def influx_Write_def upsert_def)
  with n bp show ?thesis by simp
qed

text \<open>
  The claim without the amendment fails for a flush that is refused before anything was
  appended: \<open>FlushAuditBatch\<close> on the fresh store returns the error and leaves the store
  as \<open>emptyStore\<close>, whose counter is zero and does not exceed the size of its empty
  batch.
\<close>

theorem counter_kept_on_failed_flush_counterexample:
  "FlushAuditBatch freshRefusingStore = Return (emptyStore, Some ''connection refused'') \<and>
   influxBatchPoints emptyStore = Some \<lparr>Points = [], Database = ''audit'', Precision = ''ns''\<rparr> \<and>
   influxPointsInBatch freshRefusingStore = 0 \<and>
   influxPointsInBatch emptyStore = 0 \<and>
   \<not> int (length (Points \<lparr>Points = [], Database = ''audit'', Precision = ''ns''\<rparr>))
       < influxPointsInBatch emptyStore"
  by (simp add: FlushAuditBatch_def WriteAuditBatchInflux_def influx_Write_def freshRefusingStore_def
      emptyStore_def createAuditBatchInflux_eq)

section \<open>Decimal numbers\<close>

lemma digit_val_digit_char: "d < 10 \<Longrightarrow> digit_val (digit_char d) = Some d"
proof -
  assume "d < 10"
  then have "d \<in> {0, 1, 2, 3, 4, 5, 6, 7, 8, 9}" by auto
  then show ?thesis
    by (auto simp: digit_val_def digit_char_def)
qed

lemma digit_char_not_sign: "d < 10 \<Longrightarrow> digit_char d \<noteq> CHR ''-'' \<and> digit_char d \<noteq> CHR ''+''"
proof -
  assume "d < 10"
  then have "d \<in> {0, 1, 2, 3, 4, 5, 6, 7, 8, 9}" by auto
  then show ?thesis
    by (auto simp: digit_char_def)
qed

lemma parse_digits_append:
  "parse_digits n (xs @ ys) = (case parse_digits n xs of None \<Rightarrow> None | Some m \<Rightarrow> parse_digits m ys)"
  by (induction xs arbitrary: n) (auto split: option.splits)

lemma parse_digits_digits10: "parse_digits 0 (digits10 n) = Some n"
proof (induction n rule: digits10.induct)
  case (1 n)
  show ?case
  proof (cases "n < 10")
    case True
    then show ?thesis
      by (subst digits10.simps) (simp add: digit_val_digit_char)
  next
    case False
    with 1 have ih: "parse_digits 0 (digits10 (n div 10)) = Some (n div 10)" by simp
    have "n mod 10 < 10" by simp
    with False ih show ?thesis
      by (subst digits10.simps) (simp add: parse_digits_append digit_val_digit_char)
  qed
qed

lemma digits10_nonempty: "digits10 n \<noteq> []"
  by (subst digits10.simps) simp

lemma hd_digits10: "hd (digits10 n) \<noteq> CHR ''-'' \<and> hd (digits10 n) \<noteq> CHR ''+''"
proof (induction n rule: digits10.induct)
  case (1 n)
  show ?case
  proof (cases "n < 10")
    case True
    then show ?thesis
      by (subst (1 2) digits10.simps) (simp add: digit_char_not_sign)
  next
    case False
    with 1 have "hd (digits10 (n div 10)) \<noteq> CHR ''-'' \<and> hd (digits10 (n div 10)) \<noteq> CHR ''+''" by simp
    with False show ?thesis
      by (subst (1 2) digits10.simps) (simp add: digits10_nonempty)
  qed
qed

lemma ParseInt_FormatInt:
  assumes "- (2 ^ 63) \<le> x" "x < 2 ^ 63"
  shows "ParseInt (FormatInt x) = (x, None)"
proof (cases "x < 0")
  case True
  have "nat (- x) \<le> 2 ^ 63" using assms True by (simp add: nat_le_iff)
  with True show ?thesis
    by (simp add: ParseInt_def FormatInt_def digits10_nonempty parse_digits_digits10)
next
  case False
  obtain c cs where d: "digits10 (nat x) = c # cs"
    using digits10_nonempty [of "nat x"] by (cases "digits10 (nat x)") auto
  from hd_digits10 [of "nat x"] d have c: "c \<noteq> CHR ''-''" "c \<noteq> CHR ''+''" by simp_all
  have p: "parse_digits 0 (c # cs) = Some (nat x)"
    using parse_digits_digits10 [of "nat x"] d by simp
  have "\<not> 2 ^ 63 \<le> nat x" using assms False by (simp add: nat_le_iff)
  with False c p d show ?thesis
    by (simp add: ParseInt_def FormatInt_def Let_def del: parse_digits.simps)
qed

section \<open>The reverse pool index\<close>

lemma map_of_poolMap:
  "map_of (fold (\<lambda>num m. AList.update num v m) xs m0) c = (if c \<in> set xs then Some v else map_of m0 c)"
  by (induction xs arbitrary: m0) (auto simp: update_conv')

lemma redis_HSet_ok:
  assumes "redis_HSet r key poolMap = (r', None)"
  shows "hashes r' = (hashes r)(key := hashes r key ++ map_of (map (\<lambda>(f, v). (f, FormatInt v)) poolMap))"
    and "poolMap \<noteq> []"
  using assms
  by (auto simp: redis_HSet_def split: list.splits option.splits if_splits)

lemma redis_HSet_failed:
  assumes "redis_HSet r key poolMap = (r', Some e)"
  shows "hashes r' = hashes r"
  using assms
  by (auto simp: redis_HSet_def split: list.splits option.splits if_splits)

lemma SetPoolID_ok:
  assumes "SetPoolID db topic children parentID = Return (db', None)"
  shows "\<exists>r r'. redisClient db = Some r \<and> redisClient db' = Some r' \<and>
           db' = db\<lparr>redisClient := Some r'\<rparr> \<and>
           (\<forall>c \<in> set children. hashes r' (getKeyPoolIDs topic) c = Some (FormatInt parentID))"
proof -
  let ?pm = "fold (\<lambda>num m. AList.update num parentID m) children []"
  from assms obtain r r' where r: "redisClient db = Some r"
    and h: "redis_HSet r (getKeyPoolIDs topic) ?pm = (r', None)"
    and d: "db' = db\<lparr>redisClient := Some r'\<rparr>"
    by (auto simp: SetPoolID_def Let_def split: option.splits prod.splits)
  have "hashes r' (getKeyPoolIDs topic) c = Some (FormatInt parentID)" if "c \<in> set children" for c
    using that redis_HSet_ok(1) [OF h]
    by (simp add: map_add_def map_of_map map_of_poolMap)
  with r d show ?thesis by auto
qed

text \<open>
  C3. After \<open>SetPoolID\<close> has succeeded for a topic, a list of children and a parent
  identifier (an \<open>int64\<close>), the hash of the topic maps every child of the list to the
  parent identifier in decimal, and \<open>GetPoolsParentID\<close> of that child and topic returns
  the parent identifier, provided the Redis request of the lookup itself is not refused.
\<close>

theorem pool_index_roundtrip:
  assumes "SetPoolID db topic children parentID = Return (db', None)"
    and "c \<in> set children"
    and "- (2 ^ 63) \<le> parentID" and "parentID < 2 ^ 63"
  shows "\<exists>r. redisClient db' = Some r \<and>
           hashes r (getKeyPoolIDs topic) c = Some (FormatInt parentID) \<and>
           ((\<forall>e later. redisOutcomes r \<noteq> Some e # later) \<longrightarrow>
              GetPoolsParentID db' c topic = Return (parentID, None))"
proof -
  from SetPoolID_ok [OF assms(1)] assms(2) obtain r where r: "redisClient db' = Some r"
    and h: "hashes r (getKeyPoolIDs topic) c = Some (FormatInt parentID)"
    by auto
  have "GetPoolsParentID db' c topic = Return (parentID, None)"
    if "\<forall>e later. redisOutcomes r \<noteq> Some e # later"
  proof -
    from that h have "redis_HGet r (getKeyPoolIDs topic) c = (FormatInt parentID, None)"
      by (auto simp: redis_HGet_def split: list.splits option.splits)
    with r show ?thesis
      by (simp add: GetPoolsParentID_def Let_def ParseInt_FormatInt [OF assms(3,4)])
  qed
  with r h show ?thesis by blast
qed

lemma FormatInt_500: "FormatInt 500 = ''500''"
  by (simp add: FormatInt_def digits10.simps digit_char_def)

lemma emptyStore_pool:
  "SetPoolID emptyStore ''prices'' [''100.0'', ''100.1'', ''100.2''] 500 = Return (pooledStore, None)"
  apply (simp add: SetPoolID_def emptyStore_def pooledStore_def redis_HSet_def getKeyPoolIDs_def Let_def FormatInt_500)
  apply (rule ext)
  apply (auto simp: map_add_def)
  done

theorem pool_index_roundtrip_witness:
  "SetPoolID emptyStore ''prices'' [''100.0'', ''100.1'', ''100.2''] 500 = Return (pooledStore, None) \<and>
   GetPoolsParentID pooledStore ''100.1'' ''prices'' = Return (500, None)"
proof -
  have c: "''100.1'' \<in> set [''100.0'', ''100.1'', ''100.2'']" by simp
  from pool_index_roundtrip [OF emptyStore_pool c]
  have "GetPoolsParentID pooledStore ''100.1'' ''prices'' = Return (500, None)"
    by (auto simp: pooledStore_def emptyStore_def)
  with emptyStore_pool show ?thesis by simp
qed

lemma addAuditPoint_redis: "addAuditPoint E db pt = Return db1 \<Longrightarrow> redisClient db1 = redisClient db"
  by (auto simp: addAuditPoint_def WriteAuditBatchInflux_def Let_def
      split: option.splits if_splits result.splits prod.splits)

lemma WriteAuditBatchInflux_redis:
  "WriteAuditBatchInflux db = Return (db1, err) \<Longrightarrow> redisClient db1 = redisClient db"
  by (auto simp: WriteAuditBatchInflux_def split: option.splits prod.splits)

lemma SetDailyTreeInflux_level2:
  assumes "SetDailyTreeInflux E now db tree parentID topic ''2'' children lastTimestamp = Return (db', err)"
    and "SetPoolID db topic children parentID = Return (dbp, perr)"
  shows "redisClient db' = redisClient dbp \<or> (db' = db \<and> err \<noteq> None)"
  using assms
  by (auto simp: SetDailyTreeInflux_def andThen_def Let_def
      dest!: addAuditPoint_redis WriteAuditBatchInflux_redis
      split: prod.splits option.splits result.splits)

text \<open>
  C2 (as amended). \<open>SetDailyTreeInflux\<close> does not look at the error of the \<open>SetPoolID\<close>
  call it makes at level 2, so its own success says nothing about the pool index. After
  it has returned without error at level 2, and where that \<open>SetPoolID\<close> call succeeded,
  the hash of the topic holds for every child identifier of the list the parent
  identifier in decimal.
\<close>

theorem daily_tree_level2_pool_entries:
  assumes "SetDailyTreeInflux E now db tree parentID topic ''2'' children lastTimestamp = Return (db', None)"
    and "SetPoolID db topic children parentID = Return (dbp, None)"
    and "c \<in> set children"
  shows "\<exists>r. redisClient db' = Some r \<and> hashes r (getKeyPoolIDs topic) c = Some (FormatInt parentID)"
proof -
  from SetDailyTreeInflux_level2 [OF assms(1,2)] have "redisClient db' = redisClient dbp" by simp
  with SetPoolID_ok [OF assms(2)] assms(3) show ?thesis by auto
qed

lemma UnixNano_in_range: "- (2 ^ 63) \<le> t \<Longrightarrow> t < 2 ^ 63 \<Longrightarrow> UnixNano t = t"
  by (simp add: UnixNano_def wrap64_def)

lemma FormatInt_lastTimestamp: "FormatInt 1699999995000000000 = ''1699999995000000000''"
  by (simp add: FormatInt_def digits10.simps digit_char_def)

lemma dailyTree_marshal: "exampleMarshal dailyTree = (dailyText, None)"
  by (simp add: exampleMarshal_def dailyTree_def leafText_def dailyText_def)

lemma redisDownStore_daily:
  "SetDailyTreeInflux exampleEnv 1700000100000000000 redisDownStore dailyTree 500 ''prices'' ''2''
     [''100.0'', ''100.1'', ''100.2''] 1699999995000000000 = Return (unpooledStore, None)"
  by (simp add: SetDailyTreeInflux_def andThen_def SetPoolID_def redis_HSet_def Let_def
      exampleEnv_def dailyTree_marshal redisDownStore_def emptyStore_def createAuditBatchInflux_eq
      NewPoint_def merkleTags_def influxDBMerkleTable_def FormatInt_500 FormatInt_lastTimestamp
      UnixNano_in_range addAuditPoint_def WriteAuditBatchInflux_def influx_Write_def upsert_def
      unpooledStore_def dailyPoint_def)

text \<open>
  The claim without the amendment fails where Redis refuses the request: the daily tree
  is written, \<open>SetDailyTreeInflux\<close> returns no error, and the lookup of a child finds no
  entry.
\<close>

theorem daily_tree_level2_counterexample:
  "SetDailyTreeInflux exampleEnv 1700000100000000000 redisDownStore dailyTree 500 ''prices'' ''2''
     [''100.0'', ''100.1'', ''100.2''] 1699999995000000000 = Return (unpooledStore, None) \<and>
   GetPoolsParentID unpooledStore ''100.1'' ''prices'' =
     Return (- 2, Some (''no redis entry for pool ID 100.1 with topic prices '' @ [CHR 0x0A]))"
  by (simp add: redisDownStore_daily GetPoolsParentID_def unpooledStore_def redis_HGet_def redis_Nil_def Let_def)

lemma emptyStore_daily:
  "\<exists>db'. SetDailyTreeInflux exampleEnv 1700000100000000000 emptyStore dailyTree 500 ''prices'' ''2''
     [''100.0'', ''100.1'', ''100.2''] 1699999995000000000 = Return (db', None)"
  apply (simp add: SetDailyTreeInflux_def andThen_def emptyStore_pool Let_def
      exampleEnv_def dailyTree_marshal)
  apply (simp add: andThen_def pooledStore_def emptyStore_def createAuditBatchInflux_eq
      NewPoint_def merkleTags_def influxDBMerkleTable_def FormatInt_500 FormatInt_lastTimestamp
      UnixNano_in_range addAuditPoint_def WriteAuditBatchInflux_def influx_Write_def upsert_def)
  done

theorem daily_tree_level2_pool_entries_witness:
  "\<exists>db' r. SetDailyTreeInflux exampleEnv 1700000100000000000 emptyStore dailyTree 500 ''prices'' ''2''
       [''100.0'', ''100.1'', ''100.2''] 1699999995000000000 = Return (db', None) \<and>
     redisClient db' = Some r \<and> hashes r (getKeyPoolIDs ''prices'') ''100.1'' = Some (FormatInt 500)"
proof -
  from emptyStore_daily obtain db' where
    d: "SetDailyTreeInflux exampleEnv 1700000100000000000 emptyStore dailyTree 500 ''prices'' ''2''
       [''100.0'', ''100.1'', ''100.2''] 1699999995000000000 = Return (db', None)" ..
  have c: "''100.1'' \<in> set [''100.0'', ''100.1'', ''100.2'']" by simp
  from daily_tree_level2_pool_entries [OF d emptyStore_pool c] d show ?thesis by blast
qed

section \<open>Queries for the earliest tree after a time\<close>

lemma earliest_None: "earliest rs = None \<longleftrightarrow> rs = []"
  by (induction rs) (auto split: option.splits)

lemma latest_None: "latest rs = None \<longleftrightarrow> rs = []"
  by (induction rs) (auto split: option.splits)

lemma earliest_Some: "earliest rs = Some r \<Longrightarrow> r \<in> set rs \<and> (\<forall>q \<in> set rs. ptime r \<le> ptime q)"
proof (induction rs arbitrary: r)
  case Nil
  then show ?case by simp
next
  case (Cons a rs)
  then show ?case
    by (cases "earliest rs") (auto simp: earliest_None split: if_splits)
qed

lemma answer_empty: "answer [] = \<lparr>Results = [\<lparr>Series = [], Err = []\<rparr>], ResponseErr = []\<rparr>"
  by (simp add: answer_def)

lemma queryAuditDB_answer:
  "queryOutcome cl = None \<Longrightarrow> evalCommand cmd (rows cl) = answer vals \<Longrightarrow>
   queryAuditDB cl cmd = ([\<lparr>Series = (if vals = [] then [] else [\<lparr>Values = vals\<rparr>]), Err = []\<rparr>], None)"
  by (simp add: queryAuditDB_def influx_Query_def Response_Error_def answer_def)

lemma no_later_row:
  "\<forall>r \<in> set rs. ptime r \<le> n \<Longrightarrow> earliest (filter (\<lambda>r. n < ptime r) rs) = None"
  by (simp add: earliest_None filter_empty_conv not_less)

text \<open>
  C8. Where the query reaches the server, \<open>GetStorageTreeInflux\<close> and
  \<open>GetDailyTreeInflux\<close> return the zero tree (and zero identifier and time) with a nil
  error when no row of the topic (and level) has a time greater than the bound
  \<open>timeLower.UnixNano()\<close>: a row whose time equals the bound is not selected. A row
  of the topic (and level) with a greater time makes the query answer with such a row.
\<close>

theorem earliest_after_at_latest_is_empty:
  assumes "influxClient db = Some cl" and "queryOutcome cl = None"
  shows "((\<forall>r \<in> set (matching ''storage'' [(''topic'', topic)] (rows cl)). ptime r \<le> UnixNano timeLower) \<longrightarrow>
            GetStorageTreeInflux E db topic timeLower = Return (emptyTree, zeroTime, None)) \<and>
         ((\<forall>r \<in> set (matching ''merkle'' [(''topic'', topic), (''level'', level)] (rows cl)).
              ptime r \<le> UnixNano timeLower) \<longrightarrow>
            GetDailyTreeInflux E db topic level timeLower = Return (emptyTree, 0, zeroTime, None)) \<and>
         (\<forall>r \<in> set (matching ''storage'' [(''topic'', topic)] (rows cl)). UnixNano timeLower < ptime r \<longrightarrow>
            (\<exists>q \<in> set (matching ''storage'' [(''topic'', topic)] (rows cl)). UnixNano timeLower < ptime q \<and>
               queryAuditDB cl (StorageEarliestAfter topic (UnixNano timeLower)) =
                 ([\<lparr>Series = [\<lparr>Values = [[timeCell q, fieldCell q ''value'']]\<rparr>], Err = []\<rparr>], None))) \<and>
         (\<forall>r \<in> set (matching ''merkle'' [(''topic'', topic), (''level'', level)] (rows cl)).
            UnixNano timeLower < ptime r \<longrightarrow>
            (\<exists>q \<in> set (matching ''merkle'' [(''topic'', topic), (''level'', level)] (rows cl)).
               UnixNano timeLower < ptime q \<and>
               queryAuditDB cl (MerkleEarliestAfter topic level (UnixNano timeLower)) =
                 ([\<lparr>Series = [\<lparr>Values = [[timeCell q, tagCell q ''id'', fieldCell q ''value'']]\<rparr>], Err = []\<rparr>],
                  None)))"
proof (intro conjI impI ballI)
  assume a: "\<forall>r \<in> set (matching ''storage'' [(''topic'', topic)] (rows cl)). ptime r \<le> UnixNano timeLower"
  have "evalCommand (StorageEarliestAfter topic (UnixNano timeLower)) (rows cl) = answer []"
    by (simp add: no_later_row [OF a] oneRow_def)
  from queryAuditDB_answer [OF assms(2) this] assms(1)
  show "GetStorageTreeInflux E db topic timeLower = Return (emptyTree, zeroTime, None)"
    by (simp add: GetStorageTreeInflux_def andThen_def index_def)
next
  assume a: "\<forall>r \<in> set (matching ''merkle'' [(''topic'', topic), (''level'', level)] (rows cl)).
              ptime r \<le> UnixNano timeLower"
  have "evalCommand (MerkleEarliestAfter topic level (UnixNano timeLower)) (rows cl) = answer []"
    by (simp add: no_later_row [OF a] oneRow_def)
  from queryAuditDB_answer [OF assms(2) this] assms(1)
  show "GetDailyTreeInflux E db topic level timeLower = Return (emptyTree, 0, zeroTime, None)"
    by (simp add: GetDailyTreeInflux_def andThen_def index_def)
next
  fix r
  let ?m = "matching ''storage'' [(''topic'', topic)] (rows cl)"
  let ?f = "filter (\<lambda>r. UnixNano timeLower < ptime r) ?m"
  assume "r \<in> set ?m" "UnixNano timeLower < ptime r"
  then have "?f \<noteq> []" by (auto simp: filter_empty_conv)
  then obtain q where q: "earliest ?f = Some q"
    using earliest_None [of ?f] by (cases "earliest ?f") auto
  from earliest_Some [OF q] have qm: "q \<in> set ?m" "UnixNano timeLower < ptime q" by auto
  have "evalCommand (StorageEarliestAfter topic (UnixNano timeLower)) (rows cl)
          = answer [[timeCell q, fieldCell q ''value'']]"
    by (simp add: q oneRow_def)
  from queryAuditDB_answer [OF assms(2) this] qm
  show "\<exists>q \<in> set ?m. UnixNano timeLower < ptime q \<and>
               queryAuditDB cl (StorageEarliestAfter topic (UnixNano timeLower)) =
                 ([\<lparr>Series = [\<lparr>Values = [[timeCell q, fieldCell q ''value'']]\<rparr>], Err = []\<rparr>], None)"
    by auto
next
  fix r
  let ?m = "matching ''merkle'' [(''topic'', topic), (''level'', level)] (rows cl)"
  let ?f = "filter (\<lambda>r. UnixNano timeLower < ptime r) ?m"
  assume "r \<in> set ?m" "UnixNano timeLower < ptime r"
  then have "?f \<noteq> []" by (auto simp: filter_empty_conv)
  then obtain q where q: "earliest ?f = Some q"
    using earliest_None [of ?f] by (cases "earliest ?f") auto
  from earliest_Some [OF q] have qm: "q \<in> set ?m" "UnixNano timeLower < ptime q" by auto
  have "evalCommand (MerkleEarliestAfter topic level (UnixNano timeLower)) (rows cl)
          = answer [[timeCell q, tagCell q ''id'', fieldCell q ''value'']]"
    by (simp add: q oneRow_def)
  from queryAuditDB_answer [OF assms(2) this] qm
  show "\<exists>q \<in> set ?m. UnixNano timeLower < ptime q \<and>
               queryAuditDB cl (MerkleEarliestAfter topic level (UnixNano timeLower)) =
                 ([\<lparr>Series = [\<lparr>Values = [[timeCell q, tagCell q ''id'', fieldCell q ''value'']]\<rparr>], Err = []\<rparr>],
                  None)"
    by auto
qed

lemma storedStore_client:
  "influxClient storedStore =
     Some \<lparr>writeOutcomes = [], queryOutcome = None, rows = [examplePoint 1700000000000000000, dailyPoint]\<rparr>"
  by (simp add: storedStore_def)

lemma storedStore_storage:
  "matching ''storage'' [(''topic'', ''prices'')] [examplePoint 1700000000000000000, dailyPoint]
     = [examplePoint 1700000000000000000]"
  by (simp add: matching_def examplePoint_def dailyPoint_def)

lemma storedStore_merkle:
  "matching ''merkle'' [(''topic'', ''prices''), (''level'', ''2'')] [examplePoint 1700000000000000000, dailyPoint]
     = [dailyPoint]"
  by (simp add: matching_def examplePoint_def dailyPoint_def)

theorem earliest_after_at_latest_is_empty_witness:
  "GetStorageTreeInflux exampleEnv storedStore ''prices'' 1700000100000000000
     = Return (emptyTree, zeroTime, None) \<and>
   GetDailyTreeInflux exampleEnv storedStore ''prices'' ''2'' 1700000100000000000
     = Return (emptyTree, 0, zeroTime, None)"
proof -
  have q: "queryOutcome \<lparr>writeOutcomes = [], queryOutcome = None,
      rows = [examplePoint 1700000000000000000, dailyPoint]\<rparr> = None" by simp
  note t = earliest_after_at_latest_is_empty [OF storedStore_client q, of "''prices''" 1700000100000000000
      exampleEnv "''2''"]
  have s: "\<forall>r \<in> set (matching ''storage'' [(''topic'', ''prices'')] [examplePoint 1700000000000000000, dailyPoint]).
             ptime r \<le> UnixNano 1700000100000000000"
    unfolding storedStore_storage by (simp add: UnixNano_in_range examplePoint_def)
  have m: "\<forall>r \<in> set (matching ''merkle'' [(''topic'', ''prices''), (''level'', ''2'')]
               [examplePoint 1700000000000000000, dailyPoint]).
             ptime r \<le> UnixNano 1700000100000000000"
    unfolding storedStore_merkle by (simp add: UnixNano_in_range dailyPoint_def)
  from t s m show ?thesis by simp
qed

section \<open>Bootstrap on an empty store\<close>

lemma queryAuditDB_empty_rows:
  assumes "queryOutcome cl = None" and "rows cl = []"
    and "\<forall>topic key. cmd \<noteq> StorageByTime topic key"
  shows "queryAuditDB cl cmd = ([\<lparr>Series = [], Err = []\<rparr>], None)"
  using assms
  by (cases cmd)
     (simp_all add: queryAuditDB_def influx_Query_def Response_Error_def answer_def oneRow_def matching_def)

text \<open>
  C5 (as amended). On an empty store that answers the query, each of the three
  bootstrap queries returns a sentinel and a nil error: \<open>GetLastID\<close> the clock reading
  as a decimal \<open>UnixNano\<close> value, \<open>GetLastTimestamp\<close> the clock reading moved back by
  ten days (\<open>AddDate(0, 0, -10)\<close>), and \<open>GetLastIDMerkle\<close> the constant \<open>-1\<close>, which
  does not depend on the clock.
\<close>

theorem bootstrap_on_empty_store:
  assumes "influxClient db = Some cl" and "queryOutcome cl = None" and "rows cl = []"
  shows "GetLastID E now db topic = Return (FormatInt (UnixNano now), None) \<and>
         GetLastTimestamp E now db topic level = Return (Time_AddDate E now 0 0 (- 10), None) \<and>
         GetLastIDMerkle E db topic level = Return (- 1, None)"
  using assms
  by (simp add: GetLastID_def GetLastTimestamp_def GetLastIDMerkle_def queryAuditDB_empty_rows
      andThen_def index_def)

lemma emptyStore_client:
  "influxClient emptyStore = Some \<lparr>writeOutcomes = [], queryOutcome = None, rows = []\<rparr>"
  by (simp add: emptyStore_def)

lemma FormatInt_clock: "FormatInt 1700000000000000000 = ''1700000000000000000''"
  by (simp add: FormatInt_def digits10.simps digit_char_def)

lemma addDateUTC_clock: "addDateUTC 1700000000000000000 0 0 (- 10) = 1699136000000000000"
  by code_simp

theorem bootstrap_on_empty_store_witness:
  "GetLastID exampleEnv 1700000000000000000 emptyStore ''prices'' = Return (''1700000000000000000'', None) \<and>
   GetLastTimestamp exampleEnv 1700000000000000000 emptyStore ''prices'' ''2''
     = Return (1699136000000000000, None) \<and>
   GetLastIDMerkle exampleEnv emptyStore ''prices'' ''2'' = Return (- 1, None)"
  using bootstrap_on_empty_store [OF emptyStore_client, of exampleEnv 1700000000000000000 "''prices''" "''2''"]
  by (simp add: UnixNano_in_range FormatInt_clock exampleEnv_def addDateUTC_clock)

text \<open>
  The claim without the amendment fails for \<open>GetLastIDMerkle\<close>: with the clock at
  1700000000000000000 the storage identifier is the clock reading, the identifier of the
  merkle table is \<open>-1\<close>.
\<close>

theorem bootstrap_merkle_id_counterexample:
  "GetLastIDMerkle exampleEnv emptyStore ''prices'' ''2'' = Return (- 1, None) \<and>
   GetLastID exampleEnv 1700000000000000000 emptyStore ''prices'' = Return (''1700000000000000000'', None) \<and>
   (- 1 :: int) \<noteq> UnixNano 1700000000000000000"
  by (simp add: GetLastID_def GetLastIDMerkle_def queryAuditDB_empty_rows emptyStore_client
      andThen_def index_def UnixNano_in_range FormatInt_clock)

section \<open>Lookup of a tree by its key\<close>

lemma queryAuditDB_no_match:
  assumes "queryOutcome cl = None" and "evalCommand cmd (rows cl) = answer []"
  shows "queryAuditDB cl cmd = ([\<lparr>Series = [], Err = []\<rparr>], None)"
  using queryAuditDB_answer [OF assms] by simp

lemma exact_key_lookup_without_match:
  assumes "influxClient db = Some cl" and "queryOutcome cl = None"
    and "matching ''merkle'' [(''topic'', topic), (''level'', level), (''id'', FormatInt parentID)] (rows cl) = []"
    and "filter (\<lambda>r. ptime r = n) (matching ''storage'' [(''topic'', topic)] (rows cl)) = []"
    and "- (2 ^ 63) \<le> n" and "n < 2 ^ 63"
  shows "GetDailyTreeByID E db topic level parentID = Return (emptyTree, None) \<and>
         GetStorageTreeByID E db topic (FormatInt n) = Return (emptyTree, Some ''empty response'')"
proof -
  have "evalCommand (MerkleByID topic level (FormatInt parentID)) (rows cl) = answer []"
    using assms(3) by simp
  from queryAuditDB_no_match [OF assms(2) this] assms(1)
  have d: "GetDailyTreeByID E db topic level parentID = Return (emptyTree, None)"
    by (simp add: GetDailyTreeByID_def andThen_def index_def)
  have "evalCommand (StorageByTime topic (FormatInt n)) (rows cl) = answer []"
    using assms(4) by (simp add: ParseInt_FormatInt [OF assms(5,6)])
  from queryAuditDB_no_match [OF assms(2) this] assms(1)
  have s: "GetStorageTreeByID E db topic (FormatInt n) = Return (emptyTree, Some ''empty response'')"
    by (simp add: GetStorageTreeByID_def andThen_def index_def)
  from d s show ?thesis by simp
qed

lemma emptyTreeStore_lookup:
  "GetDailyTreeByID exampleEnv emptyTreeStore ''prices'' ''2'' 500 = Return (emptyTree, None)"
proof -
  have m: "matching ''merkle'' [(''topic'', ''prices''), (''level'', ''2''), (''id'', ''500'')] [emptyDailyPoint]
             = [emptyDailyPoint]"
    by (simp add: matching_def emptyDailyPoint_def)
  have v: "fieldCell emptyDailyPoint ''value'' = VString ''{}''"
    by (simp add: fieldCell_def emptyDailyPoint_def)
  have "queryAuditDB \<lparr>writeOutcomes = [], queryOutcome = None, rows = [emptyDailyPoint]\<rparr>
            (MerkleByID ''prices'' ''2'' ''500'')
          = ([\<lparr>Series = [\<lparr>Values = [merkleStar emptyDailyPoint]\<rparr>], Err = []\<rparr>], None)"
    by (simp add: queryAuditDB_def influx_Query_def Response_Error_def answer_def m)
  then show ?thesis
    by (simp add: GetDailyTreeByID_def emptyTreeStore_def FormatInt_500 andThen_def index_def
        merkleStar_def v asString_def exampleEnv_def exampleUnmarshal_def sealedText_def dailyText_def)
qed

text \<open>
  C9. On a store without any row, \<open>GetStorageTreeByID\<close> answers with the error
  \<open>empty response\<close>, and \<open>GetDailyTreeByID\<close> answers with the zero tree and a nil error,
  which is also its answer for a stored daily tree without leaves.
\<close>

theorem daily_tree_by_id_without_match:
  "GetDailyTreeByID exampleEnv emptyStore ''prices'' ''2'' 500 = Return (emptyTree, None) \<and>
   GetDailyTreeByID exampleEnv emptyTreeStore ''prices'' ''2'' 500 = Return (emptyTree, None) \<and>
   GetStorageTreeByID exampleEnv emptyStore ''prices'' ''1700000000000000000''
     = Return (emptyTree, Some ''empty response'')"
proof -
  have q: "queryOutcome \<lparr>writeOutcomes = [], queryOutcome = None, rows = []\<rparr> = None" by simp
  from exact_key_lookup_without_match [OF emptyStore_client q, of "''prices''" "''2''" 500
      1700000000000000000 exampleEnv]
  have "GetDailyTreeByID exampleEnv emptyStore ''prices'' ''2'' 500 = Return (emptyTree, None) \<and>
        GetStorageTreeByID exampleEnv emptyStore ''prices'' ''1700000000000000000''
          = Return (emptyTree, Some ''empty response'')"
    by (simp add: matching_def FormatInt_clock)
  with emptyTreeStore_lookup show ?thesis by simp
qed

section \<open>The identifier FindStorageTree returns\<close>

lemma exampleEnv_sel:
  "influxMaxPointsInBatch exampleEnv = 5000"
  "NewTree exampleEnv = exampleNewTree"
  "DataInStorageTree exampleEnv = exampleContains"
  "json_Marshal exampleEnv = exampleMarshal"
  "json_Unmarshal exampleEnv = exampleUnmarshal"
  "time_Parse exampleEnv = parseRFC3339Nano"
  "Time_String exampleEnv = goTimeString"
  "Time_AddDate exampleEnv = addDateUTC"
  by (simp_all add: exampleEnv_def)

lemma goTimeString_clock: "goTimeString 1700000000000000000 = ''2023-11-14 22:13:20 +0000 UTC''"
  by code_simp

lemma formatRFC3339Nano_clock: "formatRFC3339Nano 1700000000000000000 = ''2023-11-14T22:13:20Z''"
  by code_simp

lemma parseRFC3339Nano_clock: "parseRFC3339Nano ''2023-11-14T22:13:20Z'' = (1700000000000000000, None)"
  by code_simp

lemma ParseInt_date: "ParseInt ''2023-11-14 22:13:20 +0000 UTC'' = (0, Some ''strconv.ParseInt: invalid syntax'')"
  by (simp add: ParseInt_def digit_val_def)

lemma ParseInt_clock: "ParseInt ''1700000000000000000'' = (1700000000000000000, None)"
  using ParseInt_FormatInt [of 1700000000000000000] by (simp add: FormatInt_clock)

lemma storedStore_cells:
  "timeCell (examplePoint 1700000000000000000) = VString ''2023-11-14T22:13:20Z''"
  "fieldCell (examplePoint 1700000000000000000) ''value'' = VString sealedText"
  by (simp_all add: timeCell_def fieldCell_def examplePoint_def formatRFC3339Nano_clock)

lemma storedStore_earliest:
  "GetStorageTreeInflux exampleEnv storedStore ''prices'' 1699999995000000000
     = Return (sealedTree, 1700000000000000000, None)"
proof -
  have "evalCommand (StorageEarliestAfter ''prices'' 1699999995000000000)
          [examplePoint 1700000000000000000, dailyPoint]
        = answer [[timeCell (examplePoint 1700000000000000000),
                   fieldCell (examplePoint 1700000000000000000) ''value'']]"
    unfolding evalCommand.simps storedStore_storage
    by (simp add: oneRow_def examplePoint_def)
  then have "queryAuditDB \<lparr>writeOutcomes = [], queryOutcome = None,
                 rows = [examplePoint 1700000000000000000, dailyPoint]\<rparr>
               (StorageEarliestAfter ''prices'' 1699999995000000000)
             = ([\<lparr>Series = [\<lparr>Values = [[VString ''2023-11-14T22:13:20Z'', VString sealedText]]\<rparr>],
                  Err = []\<rparr>], None)"
    by (simp add: queryAuditDB_def influx_Query_def Response_Error_def answer_def storedStore_cells)
  then show ?thesis
    by (simp add: GetStorageTreeInflux_def storedStore_def UnixNano_in_range andThen_def index_def
        asString_def exampleEnv_def exampleUnmarshal_def parseRFC3339Nano_clock)
qed

lemma storedStore_by_key:
  "GetStorageTreeByID exampleEnv storedStore ''prices'' ''1700000000000000000'' = Return (sealedTree, None)"
proof -
  have "evalCommand (StorageByTime ''prices'' ''1700000000000000000'')
          [examplePoint 1700000000000000000, dailyPoint]
        = answer [[timeCell (examplePoint 1700000000000000000),
                   fieldCell (examplePoint 1700000000000000000) ''value'']]"
    unfolding evalCommand.simps storedStore_storage ParseInt_clock
    by (simp add: examplePoint_def)
  then have "queryAuditDB \<lparr>writeOutcomes = [], queryOutcome = None,
                 rows = [examplePoint 1700000000000000000, dailyPoint]\<rparr>
               (StorageByTime ''prices'' ''1700000000000000000'')
             = ([\<lparr>Series = [\<lparr>Values = [[VString ''2023-11-14T22:13:20Z'', VString sealedText]]\<rparr>],
                  Err = []\<rparr>], None)"
    by (simp add: queryAuditDB_def influx_Query_def Response_Error_def answer_def storedStore_cells)
  then show ?thesis
    by (simp add: GetStorageTreeByID_def storedStore_def andThen_def index_def
        asString_def exampleEnv_def exampleUnmarshal_def)
qed

lemma storedStore_by_date:
  "GetStorageTreeByID exampleEnv storedStore ''prices'' ''2023-11-14 22:13:20 +0000 UTC''
     = Return (emptyTree, Some ''error parsing query'')"
proof -
  have "evalCommand (StorageByTime ''prices'' ''2023-11-14 22:13:20 +0000 UTC'')
          [examplePoint 1700000000000000000, dailyPoint]
        = \<lparr>Results = [], ResponseErr = ''error parsing query''\<rparr>"
    unfolding evalCommand.simps ParseInt_date by simp
  then have "queryAuditDB \<lparr>writeOutcomes = [], queryOutcome = None,
                 rows = [examplePoint 1700000000000000000, dailyPoint]\<rparr>
               (StorageByTime ''prices'' ''2023-11-14 22:13:20 +0000 UTC'')
             = ([], Some ''error parsing query'')"
    by (simp add: queryAuditDB_def influx_Query_def Response_Error_def)
  then show ?thesis
    by (simp add: GetStorageTreeByID_def storedStore_def)
qed

lemma FindStorageTree_found:
  assumes "GetStorageTreeInflux E db topic timeData = Return (tree, timeTree, None)"
    and "DataInStorageTree E data tree = (True, None)"
  shows "FindStorageTree E db data timeData topic = Return (Time_String E timeTree, None)"
  using assms by (simp add: FindStorageTree_def andThen_def)

lemma FindStorageTree_not_contained:
  assumes "GetStorageTreeInflux E db topic timeData = Return (tree, timeTree, None)"
    and "DataInStorageTree E data tree = (False, None)"
  shows "FindStorageTree E db data timeData topic = Return ([], None)"
  using assms by (simp add: FindStorageTree_def andThen_def)

text \<open>
  C4. For a datum of the sealed tree, stored under the time 1700000000000000000, and an
  approximate time before it, \<open>FindStorageTree\<close> returns the text of \<open>Time.String\<close> for
  that time. \<open>GetStorageTreeByID\<close> finds the tree under the decimal time, and answers the
  returned text with an error.
\<close>

theorem FindStorageTree_returns_date_text:
  "FindStorageTree exampleEnv storedStore ''eth 2000'' 1699999995000000000 ''prices''
     = Return (''2023-11-14 22:13:20 +0000 UTC'', None) \<and>
   GetStorageTreeByID exampleEnv storedStore ''prices'' ''2023-11-14 22:13:20 +0000 UTC''
     = Return (emptyTree, Some ''error parsing query'') \<and>
   GetStorageTreeByID exampleEnv storedStore ''prices'' ''1700000000000000000'' = Return (sealedTree, None)"
proof -
  have "exampleContains ''eth 2000'' sealedTree = (True, None)"
    by (simp add: exampleContains_def sealedTree_def)
  then have "FindStorageTree exampleEnv storedStore ''eth 2000'' 1699999995000000000 ''prices''
     = Return (''2023-11-14 22:13:20 +0000 UTC'', None)"
    by (simp add: FindStorageTree_def storedStore_earliest andThen_def exampleEnv_sel goTimeString_clock)
  with storedStore_by_date storedStore_by_key show ?thesis by simp
qed

section \<open>The date tags of a storage tree\<close>

lemma leafLoop_dates:
  "leafLoop t leafs i (acc, f0, l0) = Return (bs, fd, ld) \<Longrightarrow>
   fd = Min (insert f0 (set (bucketTimes leafs))) \<and> ld = Max (insert l0 (set (bucketTimes leafs)))"
proof (induction leafs arbitrary: i acc f0 l0)
  case Nil
  then show ?case by simp
next
  case (Cons leaf rest)
  from Cons.prems obtain b where b: "C leaf = Bucket b"
    by (cases "C leaf") auto
  let ?l1 = "if Before l0 (Timestamp b) then Timestamp b else l0"
  let ?f1 = "if Before (Timestamp b) f0 then Timestamp b else f0"
  from Cons.prems b have
    "leafLoop t rest (Suc i)
       (acc @ [Bucket (b\<lparr>ID := FormatInt (UnixNano t) @ ''.'' @ FormatInt (int i)\<rparr>)], ?f1, ?l1)
     = Return (bs, fd, ld)"
    by (auto simp: Let_def split: if_splits)
  from Cons.IH [OF this] have
    fd: "fd = Min (insert ?f1 (set (bucketTimes rest)))" and
    ld: "ld = Max (insert ?l1 (set (bucketTimes rest)))" by auto
  have f1: "?f1 = min (Timestamp b) f0" by (simp add: Before_def min_def)
  have l1: "?l1 = max (Timestamp b) l0" by (simp add: Before_def max_def)
  have "Min (insert ?f1 (set (bucketTimes rest))) = Min (insert f0 (insert (Timestamp b) (set (bucketTimes rest))))"
    unfolding f1
    by (cases "bucketTimes rest = []") (simp_all add: min.commute min.assoc min.left_commute)
  moreover have "Max (insert ?l1 (set (bucketTimes rest))) = Max (insert l0 (insert (Timestamp b) (set (bucketTimes rest))))"
    unfolding l1
    by (cases "bucketTimes rest = []") (simp_all add: max.commute max.assoc max.left_commute)
  ultimately show ?case using fd ld b by simp
qed

lemma futureTree_loop:
  "leafLoop 1700000000000000000 (Leafs futureTree) 0 ([], 1700000000000000001, zeroTime) =
     Return ([Bucket \<lparr>ID = ''1700000000000000000.0'', Timestamp = 1700000000500000000, Payload = ''btc 35000''\<rparr>,
              Bucket \<lparr>ID = ''1700000000000000000.1'', Timestamp = 1700000000600000000, Payload = ''eth 2000''\<rparr>],
             1700000000000000001, 1700000000600000000)"
proof -
  have f: "FormatInt 0 = ''0''" "FormatInt 1 = ''1''"
    by (simp_all add: FormatInt_def digits10.simps digit_char_def)
  show ?thesis
    by (simp add: futureTree_def UnixNano_in_range FormatInt_clock f Before_def zeroTime_def)
qed

lemma futureTree_sealed:
  "exampleMarshal (fst (exampleNewTree
      [Bucket \<lparr>ID = ''1700000000000000000.0'', Timestamp = 1700000000500000000, Payload = ''btc 35000''\<rparr>,
       Bucket \<lparr>ID = ''1700000000000000000.1'', Timestamp = 1700000000600000000, Payload = ''eth 2000''\<rparr>]))
   = (sealedText, None)"
  by (simp add: exampleNewTree_def exampleMarshal_def leafText_def sealedText_def)

lemma FormatInt_dates:
  "FormatInt 1700000000000000001 = ''1700000000000000001''"
  "FormatInt 1700000000600000000 = ''1700000000600000000''"
  by (simp_all add: FormatInt_def digits10.simps digit_char_def)

text \<open>
  C7. With the clock at 1700000000000000001 and two buckets stamped half a second and
  more after it, \<open>SetStorageTreeInflux\<close> writes the tag \<open>firstDate\<close> with the clock
  reading, while the least timestamp of the leaves is 1700000000500000000; \<open>lastDate\<close>
  is the greatest timestamp.
\<close>

theorem firstDate_tag_with_later_timestamps:
  "SetStorageTreeInflux exampleEnv 1700000000000000000 1700000000000000001 emptyStore futureTree ''prices''
     = Return (futureStore, None) \<and>
   rows (the (influxClient futureStore)) = [futurePoint] \<and>
   map_of (ptags futurePoint) ''firstDate'' = Some ''1700000000000000001'' \<and>
   map_of (ptags futurePoint) ''lastDate'' = Some ''1700000000600000000'' \<and>
   Min (set (bucketTimes (Leafs futureTree))) = 1700000000500000000 \<and>
   Max (set (bucketTimes (Leafs futureTree))) = 1700000000600000000"
proof -
  have n: "exampleNewTree
      [Bucket \<lparr>ID = ''1700000000000000000.0'', Timestamp = 1700000000500000000, Payload = ''btc 35000''\<rparr>,
       Bucket \<lparr>ID = ''1700000000000000000.1'', Timestamp = 1700000000600000000, Payload = ''eth 2000''\<rparr>]
     = (fst (exampleNewTree
      [Bucket \<lparr>ID = ''1700000000000000000.0'', Timestamp = 1700000000500000000, Payload = ''btc 35000''\<rparr>,
       Bucket \<lparr>ID = ''1700000000000000000.1'', Timestamp = 1700000000600000000, Payload = ''eth 2000''\<rparr>]), None)"
    by (simp add: exampleNewTree_def)
  have "SetStorageTreeInflux exampleEnv 1700000000000000000 1700000000000000001 emptyStore futureTree ''prices''
     = Return (futureStore, None)"
    unfolding SetStorageTreeInflux_def futureTree_loop
    apply (simp add: exampleEnv_sel)
    apply (subst n)
    apply (simp add: futureTree_sealed storageTags_def UnixNano_in_range FormatInt_dates NewPoint_def
        exampleEnv_def influxDBStorageTable_def)
    apply (simp add: addAuditPoint_def emptyStore_def createAuditBatchInflux_eq Let_def
        WriteAuditBatchInflux_def influx_Write_def upsert_def futureStore_def futurePoint_def)
    done
  then show ?thesis
    by (simp add: futureStore_def futurePoint_def futureTree_def)
qed

end
